theory Spec2Isabelle
  imports Complex_Main
begin

section \<open>Strings and numbers of the page script\<close>

text \<open>
  The development follows \<^verbatim>\<open>frontend/script.js\<close> (class \<^verbatim>\<open>ArxivDownloader\<close>).
  A string is a list of code units; the model keeps the code units below 256, so a
  \<^typ>\<open>char\<close> stands for one code unit and \<^const>\<open>length\<close> is the script's
  \<^verbatim>\<open>.length\<close>. The repository holds a second copy of the script without the highlight
  section and without the search on load; \<^verbatim>\<open>searchPapers\<close>, \<^verbatim>\<open>downloadPaper\<close>,
  \<^verbatim>\<open>hideLoading\<close> and \<^verbatim>\<open>showError\<close> are the same text in both.
\<close>

definition is_js_whitespace :: "char \<Rightarrow> bool" where
  \<comment> \<open>what \<^verbatim>\<open>String.prototype.trim\<close> strips, among the code units below 256:
      TAB, LF, VT, FF, CR, SPACE, NBSP\<close>
  "is_js_whitespace c = (of_char c \<in> set [9, 10, 11, 12, 13, 32, 160 :: nat])"

definition trim :: "string \<Rightarrow> string" where
  "trim s = rev (dropWhile is_js_whitespace (rev (dropWhile is_js_whitespace s)))"

definition digit_char :: "nat \<Rightarrow> char" where
  "digit_char d = char_of (48 + d)"

function decimal_nat :: "nat \<Rightarrow> string" where
  "decimal_nat n = (if n < 10 then [digit_char n] else decimal_nat (n div 10) @ [digit_char (n mod 10)])"
  by pat_completeness auto
termination
  by (relation "measure id") auto

declare decimal_nat.simps [simp del]

definition decimal_int :: "int \<Rightarrow> string" where
  \<comment> \<open>the text a template literal gives for an integer-valued number of magnitude below
      \<open>10\<^sup>2\<^sup>1\<close>; identifiers, totals and status codes beyond are not modelled\<close>
  "decimal_int i = (if i < 0 then CHR ''-'' # decimal_nat (nat (- i)) else decimal_nat (nat i))"

fun join :: "string \<Rightarrow> string list \<Rightarrow> string" where
  "join sep [] = []"
| "join sep [x] = x"
| "join sep (x # y # ys) = x @ sep @ join sep (y # ys)"

subsection \<open>\<^verbatim>\<open>encodeURIComponent\<close>\<close>

definition uri_unreserved :: "char \<Rightarrow> bool" where
  \<comment> \<open>letters, digits and the marks \<^verbatim>\<open>- _ . ! ~ * ' ( )\<close> are left as they are\<close>
  "uri_unreserved c =
     (c \<in> set (''ABCDEFGHIJKLMNOPQRSTUVWXYZabcdefghijklmnopqrstuvwxyz0123456789-_.!~*()'' @ [CHR 0x27]))"

definition hex_upper :: "nat \<Rightarrow> char" where
  "hex_upper d = (if d < 10 then char_of (48 + d) else char_of (55 + d))"

definition percent_byte :: "nat \<Rightarrow> string" where
  "percent_byte b = [CHR ''%'', hex_upper (b div 16), hex_upper (b mod 16)]"

definition encode_unit :: "char \<Rightarrow> string" where
  \<comment> \<open>a code unit from 128 to 255 is two octets in UTF-8\<close>
  "encode_unit c =
     (let n = (of_char c :: nat) in
      if uri_unreserved c then [c]
      else if n < 128 then percent_byte n
      else percent_byte (192 + n div 64) @ percent_byte (128 + n mod 64))"

definition encodeURIComponent :: "string \<Rightarrow> string" where
  "encodeURIComponent s = concat (map encode_unit s)"

subsection \<open>\<^verbatim>\<open>Number.prototype.toFixed(3)\<close>\<close>

text \<open>
  A number read from JSON is a finite double, whose value is a rational, or an infinity
  (a literal too large for a double). \<^verbatim>\<open>toFixed\<close> hands a number that is not finite, or
  whose magnitude reaches \<open>10\<^sup>2\<^sup>1\<close>, to the general number-to-string conversion, which
  writes it in exponent notation (\<^verbatim>\<open>1e+21\<close>) or as \<^verbatim>\<open>Infinity\<close>; that conversion is
  not modelled, its result is the constructor \<open>General_notation\<close>.
\<close>

datatype number = Finite rat | PosInfinity | NegInfinity | NaN

datatype number_text = Fixed_notation string | General_notation number

definition fixed_digits :: "nat \<Rightarrow> string" where
  \<comment> \<open>the digits of \<open>n\<close>, padded on the left with zeros to four at least, a point before
      the last three\<close>
  "fixed_digits n =
     (let m = decimal_nat n;
          m' = replicate (4 - length m) CHR ''0'' @ m
      in take (length m' - 3) m' @ ''.'' @ drop (length m' - 3) m')"

definition toFixed3 :: "number \<Rightarrow> number_text" where
  "toFixed3 v =
     (case v of
        Finite x \<Rightarrow>
          (let s = (if x < 0 then ''-'' else '''');
               a = \<bar>x\<bar>
           in if a \<ge> 10 ^ 21 then General_notation v
              else Fixed_notation (s @ fixed_digits (nat \<lfloor>a * 1000 + 1 / 2\<rfloor>)))
      | _ \<Rightarrow> General_notation v)"

section \<open>Data received from the services\<close>

record paper =
  paper_id :: int
  title :: string
  published :: string
  authors :: "string list"
  summary :: string
  relevance_score :: number
  is_top :: bool

record search_result =
  total_n :: int
  top_papers :: "paper list"
  papers :: "paper list"

record download_file =
  path :: string
  filename :: string

text \<open>What \<^verbatim>\<open>await response.json()\<close> gives: the parsed body, or a rejection with a message.\<close>

datatype 'a json_body = Json_rejects string | Json 'a

text \<open>
  A parsed body need not have the shape the search service promises. Rendering throws a
  \<^verbatim>\<open>TypeError\<close> where it calls a method of a missing member: \<^verbatim>\<open>top_papers.length\<close>,
  \<^verbatim>\<open>title.length\<close>, \<^verbatim>\<open>authors.slice\<close> and \<^verbatim>\<open>relevance_score.toFixed\<close> in the highlight
  section, \<^verbatim>\<open>papers.forEach\<close> and \<^verbatim>\<open>authors.slice\<close> in the table. Such a body is
  described by the place where rendering stops, with the message of the error:
  \<open>Top_papers_missing\<close> when \<^verbatim>\<open>top_papers\<close> is missing, \<open>Top_paper_unshaped\<close> when a
  highlighted paper lacks a member, and \<open>Table_breaks d m\<close> when the highlighted papers and
  the total are those of \<open>d\<close> and \<open>papers d\<close> are the papers rendered before \<^verbatim>\<open>papers\<close>
  turns out to be missing or a paper of it to lack its authors.
\<close>

datatype unshaped =
    Top_papers_missing string
  | Top_paper_unshaped string
  | Table_breaks search_result string

datatype search_outcome =
    Search_fetch_rejects string
  | Search_not_ok nat "string option json_body"
  | Search_ok "search_result json_body"
  | Search_ok_unshaped unshaped

datatype download_outcome =
    Download_fetch_rejects string
  | Download_not_ok nat "string option json_body"
  | Download_ok "download_file json_body"

definition or_else :: "string option \<Rightarrow> string \<Rightarrow> string" where
  \<comment> \<open>\<^verbatim>\<open>detail || fallback\<close>: a missing or empty detail is falsy\<close>
  "or_else d fallback = (case d of None \<Rightarrow> fallback | Some x \<Rightarrow> if x = [] then fallback else x)"

section \<open>What the script renders\<close>

record card =
  card_target :: string
  card_title :: string
  card_authors :: string
  card_summary :: string
  card_published :: string
  card_score :: number_text

record row =
  row_className :: string
  row_id :: string
  row_title_attr :: string
  row_title_onclick :: string
  row_title :: string
  row_badge :: bool
  row_published :: string
  row_authors :: string
  row_download_onclick :: string

datatype top_node = Heading string | Container "card list"

record request =
  req_url :: string
  req_method :: string
  req_keywords :: string

record anchor =
  node :: nat
  href :: string
  download :: string

record app =
  apiBase :: string
  currentKeywords :: string
  keywordsInput :: string
  resultsDiv_hidden :: bool
  topPapersDiv_hidden :: bool
  topPapersDiv_children :: "top_node list"
  loadingDiv_hidden :: bool
  errorDiv_hidden :: bool
  errorDiv_text :: string
  papersTable :: "row list"
  totalPapersSpan :: string
  console :: "string list"
  body_children :: "nat list"
  next_node :: nat
  fetches :: "request list"
  searches_in_flight :: "nat list"
  downloads_in_flight :: "nat list"
  window_origin :: string
  saved_files :: "(string \<times> string) list"
  clicks_elsewhere :: "(string \<times> string) list"

text \<open>
  \<open>window_origin\<close> is \<^verbatim>\<open>window.location.origin\<close>. \<open>saved_files\<close> are the addresses the
  browser saved, each with the name it was saved under. \<open>clicks_elsewhere\<close> are the clicks
  on anchors whose address is not the origin of the page followed by a path, a query or a
  fragment: for these the browser does not honour the \<^verbatim>\<open>download\<close> attribute; it leaves
  the page for the address when the address parses and does nothing otherwise.
\<close>

definition apostrophe :: string where
  "apostrophe = [CHR 0x27]"

definition author_summary :: "paper \<Rightarrow> string" where
  \<comment> \<open>\<^verbatim>\<open>authors.slice(0, 2).join(', ')\<close> and \<^verbatim>\<open>' et al.'\<close> past two authors\<close>
  "author_summary p =
     join '', '' (take 2 (authors p)) @ (if length (authors p) > 2 then '' et al.'' else [])"

definition paper_target :: "paper \<Rightarrow> string \<Rightarrow> string" where
  "paper_target p encodedKeywords =
     ''/paper/'' @ decimal_int (paper_id p) @ ''?keywords='' @ encodedKeywords"

definition createTopPaperCard :: "app \<Rightarrow> paper \<Rightarrow> card" where
  \<comment> \<open>\<open>card_target\<close> is the address the closure of \<^verbatim>\<open>onclick\<close> navigates to; the other
      fields are the values written into the holes of the template of \<^verbatim>\<open>innerHTML\<close>:
      markup, not yet the text that is displayed\<close>
  "createTopPaperCard s p =
     (let encodedKeywords = encodeURIComponent (currentKeywords s) in
      \<lparr> card_target = paper_target p encodedKeywords,
        card_title = (if length (title p) > 80 then take 80 (title p) @ ''...'' else title p),
        card_authors = author_summary p,
        card_summary = summary p,
        card_published = published p,
        card_score = toFixed3 (relevance_score p) \<rparr>)"

definition createPaperRow :: "app \<Rightarrow> paper \<Rightarrow> row" where
  \<comment> \<open>the fields are the values written into the holes of the template of
      \<^verbatim>\<open>innerHTML\<close>: markup, not yet the text that is displayed; the two handlers are
      attribute texts\<close>
  "createPaperRow s p =
     (let encodedKeywords = encodeURIComponent (currentKeywords s);
          relevanceClass = (if is_top p then ''top-paper'' else [])
      in
      \<lparr> row_className = relevanceClass,
        row_id = decimal_int (paper_id p),
        row_title_attr = title p,
        row_title_onclick =
          ''window.location.href='' @ apostrophe @ paper_target p encodedKeywords @ apostrophe,
        row_title = title p,
        row_badge = is_top p,
        row_published = published p,
        row_authors = author_summary p,
        row_download_onclick =
          ''downloader.downloadPaper('' @ decimal_int (paper_id p) @ '', '' @ apostrophe
            @ currentKeywords s @ apostrophe @ '')'' \<rparr>)"

section \<open>View state\<close>

definition showLoading :: "app \<Rightarrow> app" where
  "showLoading s =
     s\<lparr> loadingDiv_hidden := False, resultsDiv_hidden := True,
        topPapersDiv_hidden := True, errorDiv_hidden := True \<rparr>"

definition hideLoading :: "app \<Rightarrow> app" where
  "hideLoading s = s\<lparr> loadingDiv_hidden := True \<rparr>"

definition showError :: "string \<Rightarrow> app \<Rightarrow> app" where
  "showError message s = s\<lparr> errorDiv_text := message, errorDiv_hidden := False \<rparr>"

section \<open>Result presenter\<close>

definition appendCard :: "app \<Rightarrow> card list \<Rightarrow> paper \<Rightarrow> card list" where
  "appendCard s topContainer p = topContainer @ [createTopPaperCard s p]"

definition displayTopPapers :: "paper list \<Rightarrow> app \<Rightarrow> app" where
  \<open>displayTopPapers topPapers s =
     (let s1 = s\<lparr> topPapersDiv_children := [] \<rparr> in
      if length topPapers = 0 then s1
      else
        (let heading = Heading ''<i class="fas fa-star"></i> Top 5 Most Relevant Papers'';
             s2 = s1\<lparr> topPapersDiv_children := topPapersDiv_children s1 @ [heading] \<rparr>;
             topContainer = foldl (appendCard s2) [] topPapers;
             s3 = s2\<lparr> topPapersDiv_children := topPapersDiv_children s2 @ [Container topContainer] \<rparr>
         in s3\<lparr> topPapersDiv_hidden := False \<rparr>))\<close>

definition appendRow :: "app \<Rightarrow> paper \<Rightarrow> app" where
  "appendRow s p = s\<lparr> papersTable := papersTable s @ [createPaperRow s p] \<rparr>"

definition displayResults :: "search_result \<Rightarrow> app \<Rightarrow> app" where
  "displayResults d s =
     (let s1 = displayTopPapers (top_papers d) s;
          s2 = s1\<lparr> resultsDiv_hidden := False \<rparr>;
          s3 = s2\<lparr> totalPapersSpan := decimal_int (total_n d) \<rparr>;
          s4 = s3\<lparr> papersTable := [] \<rparr>
      in foldl appendRow s4 (papers d))"

section \<open>Query controller\<close>

text \<open>
  An \<^verbatim>\<open>async\<close> method runs to its first \<^verbatim>\<open>await\<close> when it is called and the rest
  runs when the awaited request settles. Each method is therefore two functions: the part
  that runs at the call, which issues the request and leaves it in flight, and the part
  that runs with the outcome of the request. Nothing of the object is written between the
  \<^verbatim>\<open>await\<close> of \<^verbatim>\<open>fetch\<close> and the \<^verbatim>\<open>await\<close> of \<^verbatim>\<open>response.json()\<close>, so one outcome
  covers both.
\<close>

definition search_request :: "app \<Rightarrow> string \<Rightarrow> request" where
  "search_request s keywords =
     \<lparr> req_url = apiBase s @ ''/search'', req_method = ''POST'', req_keywords = keywords \<rparr>"

definition searchPapers :: "app \<Rightarrow> app" where
  "searchPapers s =
     (let keywords = trim (keywordsInput s);
          s1 = s\<lparr> currentKeywords := keywords \<rparr>
      in if keywords = [] then showError ''Please enter keywords'' s1
         else
           (let s2 = showLoading s1 in
            s2\<lparr> fetches := fetches s2 @ [search_request s2 keywords],
                searches_in_flight := searches_in_flight s2 @ [length (fetches s2)] \<rparr>))"

definition render_until_throw :: "unshaped \<Rightarrow> app \<Rightarrow> string \<times> app" where
  \<comment> \<open>\<^verbatim>\<open>displayResults\<close> on a body it throws on: the message and the page at the throw.
      The highlight section is emptied first; its heading is appended before the cards are
      built and its container after; the results view is shown, the total written and the
      table emptied before the rows are built\<close>
  \<open>render_until_throw u s =
     (case u of
        Top_papers_missing m \<Rightarrow> (m, s\<lparr> topPapersDiv_children := [] \<rparr>)
      | Top_paper_unshaped m \<Rightarrow>
          (m, s\<lparr> topPapersDiv_children :=
                   [Heading ''<i class="fas fa-star"></i> Top 5 Most Relevant Papers''] \<rparr>)
      | Table_breaks d m \<Rightarrow> (m, displayResults d s))\<close>

fun search_try :: "search_outcome \<Rightarrow> app \<Rightarrow> string \<times> app + app" where
  \<comment> \<open>the \<^verbatim>\<open>try\<close> block: \<open>Inr\<close> the page when it completes, \<open>Inl\<close> the message of the
      error thrown and the page at the throw\<close>
  "search_try (Search_fetch_rejects m) s = Inl (m, s)"
| "search_try (Search_not_ok status (Json_rejects m)) s = Inl (m, s)"
| "search_try (Search_not_ok status (Json detail)) s =
     Inl (or_else detail (''API Error: '' @ decimal_nat status), s)"
| "search_try (Search_ok (Json_rejects m)) s = Inl (m, s)"
| "search_try (Search_ok (Json d)) s = Inr (displayResults d s)"
| "search_try (Search_ok_unshaped u) s = Inl (render_until_throw u s)"

definition searchPapers_settled :: "search_outcome \<Rightarrow> app \<Rightarrow> app" where
  \<comment> \<open>\<^verbatim>\<open>try\<close>, \<^verbatim>\<open>catch\<close> and \<^verbatim>\<open>finally\<close> after the request settled\<close>
  "searchPapers_settled outcome s =
     hideLoading
       (case search_try outcome s of
          Inr s' \<Rightarrow> s'
        | Inl (m, s') \<Rightarrow>
            showError (''Search failed: '' @ m)
              (s'\<lparr> console := console s' @ [''Search error: '' @ m] \<rparr>))"

section \<open>Action dispatcher\<close>

definition download_request :: "app \<Rightarrow> int \<Rightarrow> string \<Rightarrow> request" where
  "download_request s paperId keywords =
     \<lparr> req_url = apiBase s @ ''/download/'' @ decimal_int paperId,
       req_method = ''POST'', req_keywords = keywords \<rparr>"

definition downloadPaper :: "int \<Rightarrow> string \<Rightarrow> app \<Rightarrow> app" where
  "downloadPaper paperId keywords s =
     s\<lparr> fetches := fetches s @ [download_request s paperId keywords],
        downloads_in_flight := downloads_in_flight s @ [length (fetches s)] \<rparr>"

definition createElement_a :: "app \<Rightarrow> anchor \<times> app" where
  "createElement_a s =
     (\<lparr> node = next_node s, href = [], download = [] \<rparr>, s\<lparr> next_node := Suc (next_node s) \<rparr>)"

definition appendChild :: "anchor \<Rightarrow> app \<Rightarrow> app" where
  \<comment> \<open>a node that is already a child is moved to the end\<close>
  "appendChild a s = s\<lparr> body_children := remove1 (node a) (body_children s) @ [node a] \<rparr>"

fun strip_prefix :: "string \<Rightarrow> string \<Rightarrow> string option" where
  "strip_prefix [] text = Some text"
| "strip_prefix (p # ps) [] = None"
| "strip_prefix (p # ps) (c # cs) = (if p = c then strip_prefix ps cs else None)"

definition same_origin_address :: "string \<Rightarrow> string \<Rightarrow> bool" where
  \<comment> \<open>the origin, then nothing or something that begins a path, a query or a fragment:
      an address of this form parses and has this origin\<close>
  "same_origin_address origin address =
     (case strip_prefix origin address of
        None \<Rightarrow> False
      | Some rest \<Rightarrow> (case rest of [] \<Rightarrow> True | c # cs \<Rightarrow> c \<in> set [CHR ''/'', CHR ''?'', CHR ''#'', CHR 0x5C]))"

definition click :: "anchor \<Rightarrow> app \<Rightarrow> app" where
  \<comment> \<open>activating an anchor that has a \<^verbatim>\<open>download\<close> attribute: an address of the page's
      own origin is saved under that name and the page stays\<close>
  "click a s =
     (if same_origin_address (window_origin s) (href a)
      then s\<lparr> saved_files := saved_files s @ [(href a, download a)] \<rparr>
      else s\<lparr> clicks_elsewhere := clicks_elsewhere s @ [(href a, download a)] \<rparr>)"

definition removeChild :: "anchor \<Rightarrow> app \<Rightarrow> app" where
  "removeChild a s = s\<lparr> body_children := remove1 (node a) (body_children s) \<rparr>"

definition save_link :: "download_file \<Rightarrow> app \<Rightarrow> app" where
  "save_link d s =
     (let (link0, s1) = createElement_a s;
          link1 = link0\<lparr> href := apiBase s1 @ path d \<rparr>;
          link2 = link1\<lparr> download := filename d \<rparr>;
          s2 = appendChild link2 s1;
          s3 = click link2 s2
      in removeChild link2 s3)"

fun download_response :: "download_outcome \<Rightarrow> string + download_file" where
  "download_response (Download_fetch_rejects m) = Inl m"
| "download_response (Download_not_ok status (Json_rejects m)) = Inl m"
| "download_response (Download_not_ok status (Json detail)) = Inl (or_else detail ''Download failed'')"
| "download_response (Download_ok (Json_rejects m)) = Inl m"
| "download_response (Download_ok (Json d)) = Inr d"

definition downloadPaper_settled :: "download_outcome \<Rightarrow> app \<Rightarrow> app" where
  "downloadPaper_settled outcome s =
     (case download_response outcome of
        Inr d \<Rightarrow> save_link d s
      | Inl m \<Rightarrow> showError (''Download failed: '' @ m) s)"

section \<open>Events of the page\<close>

datatype event =
    Edit_input string
  | Click_search
  | Keypress string
  | Search_settles nat search_outcome
  | Call_downloadPaper int string
  | Download_settles nat download_outcome

fun step :: "app \<Rightarrow> event \<Rightarrow> app" where
  "step s (Edit_input text) = s\<lparr> keywordsInput := text \<rparr>"
| "step s Click_search = searchPapers s"
| "step s (Keypress key) = (if key = ''Enter'' then searchPapers s else s)"
| "step s (Search_settles r outcome) =
     (if r \<in> set (searches_in_flight s)
      then searchPapers_settled outcome (s\<lparr> searches_in_flight := removeAll r (searches_in_flight s) \<rparr>)
      else s)"
| "step s (Call_downloadPaper paperId keywords) = downloadPaper paperId keywords s"
| "step s (Download_settles r outcome) =
     (if r \<in> set (downloads_in_flight s)
      then downloadPaper_settled outcome (s\<lparr> downloads_in_flight := removeAll r (downloads_in_flight s) \<rparr>)
      else s)"

definition run :: "app \<Rightarrow> event list \<Rightarrow> app" where
  "run s es = foldl step s es"

text \<open>
  The constructor and \<^verbatim>\<open>init\<close>. The markup of the page is not part of the script; the
  document as loaded is the argument \<open>page\<close>, served from \<open>origin\<close>. \<open>saved\<close> is the
  \<^verbatim>\<open>keywords\<close> parameter of the page's own address; an empty one is falsy.
\<close>

definition constructor :: "string \<Rightarrow> string option \<Rightarrow> app \<Rightarrow> app" where
  "constructor origin saved page =
     (let s = page\<lparr> window_origin := origin, apiBase := origin, currentKeywords := [] \<rparr> in
      case saved of
        None \<Rightarrow> s
      | Some savedKeywords \<Rightarrow>
          if savedKeywords = [] then s
          else searchPapers (s\<lparr> keywordsInput := savedKeywords \<rparr>))"

definition blank_page :: app where
  \<comment> \<open>a document with the four panels hidden, an empty table and nothing in flight\<close>
  "blank_page =
     \<lparr> apiBase = [], currentKeywords = [], keywordsInput = [],
       resultsDiv_hidden = True, topPapersDiv_hidden = True, topPapersDiv_children = [],
       loadingDiv_hidden = True, errorDiv_hidden = True, errorDiv_text = [],
       papersTable = [], totalPapersSpan = [], console = [],
       body_children = [], next_node = 0, fetches = [],
       searches_in_flight = [], downloads_in_flight = [],
       window_origin = [], saved_files = [], clicks_elsewhere = [] \<rparr>"

section \<open>Reading the rendered row\<close>

text \<open>
  The two handlers of a row are texts in \<^verbatim>\<open>onclick="..."\<close> attributes, so what a click
  does is what the browser reads back from the text. The readers below cover the two shapes
  the script writes, \<^verbatim>\<open>window.location.href='...'\<close> and
  \<^verbatim>\<open>downloader.downloadPaper(n, '...')\<close>, with a string literal free of escapes and line
  breaks and an attribute free of character references; on every other text they give
  \<open>None\<close>: the handler does not run as the call or the assignment it was written to be.
  They read the handler's own text only, so they describe a row whose paper has a title
  without double quote: the title is written into an attribute before the handler.
\<close>

fun single_quoted :: "string \<Rightarrow> (string \<times> string) option" where
  \<comment> \<open>the text after an opening apostrophe: the literal's value and the text after the
      closing apostrophe\<close>
  "single_quoted [] = None"
| "single_quoted (c # cs) =
     (if c = CHR 0x27 then Some ([], cs)
      else if c = CHR 0x5C \<or> c = CHR 0x0A \<or> c = CHR 0x0D then None
      else (case single_quoted cs of None \<Rightarrow> None | Some (v, rest) \<Rightarrow> Some (c # v, rest)))"

definition is_digit :: "char \<Rightarrow> bool" where
  "is_digit c = (48 \<le> (of_char c :: nat) \<and> (of_char c :: nat) \<le> 57)"

definition digits_value :: "string \<Rightarrow> nat" where
  "digits_value ds = foldl (\<lambda>n c. 10 * n + (of_char c - 48)) 0 ds"

definition integer_literal :: "string \<Rightarrow> (int \<times> string) option" where
  "integer_literal text =
     (let neg = (take 1 text = ''-'');
          body = (if neg then drop 1 text else text);
          ds = takeWhile is_digit body
      in if ds = [] then None
         else Some ((if neg then - int (digits_value ds) else int (digits_value ds)),
                    drop (length ds) body))"

definition attribute_value :: "string \<Rightarrow> string option" where
  \<comment> \<open>the attribute ends at the first double quote\<close>
  "attribute_value text =
     (if CHR ''&'' \<in> set text then None else Some (takeWhile (\<lambda>c. c \<noteq> CHR 0x22) text))"

definition read_navigation :: "string \<Rightarrow> string option" where
  "read_navigation js =
     (case strip_prefix ''window.location.href='' js of
        None \<Rightarrow> None
      | Some r1 \<Rightarrow>
          (case strip_prefix apostrophe r1 of
             None \<Rightarrow> None
           | Some r2 \<Rightarrow>
               (case single_quoted r2 of
                  None \<Rightarrow> None
                | Some (url, rest) \<Rightarrow> if rest = [] then Some url else None)))"

definition read_download_call :: "string \<Rightarrow> (int \<times> string) option" where
  "read_download_call js =
     (case strip_prefix ''downloader.downloadPaper('' js of
        None \<Rightarrow> None
      | Some r1 \<Rightarrow>
          (case integer_literal r1 of
             None \<Rightarrow> None
           | Some (paperId, r2) \<Rightarrow>
               (case strip_prefix ('', '' @ apostrophe) r2 of
                  None \<Rightarrow> None
                | Some r3 \<Rightarrow>
                    (case single_quoted r3 of
                       None \<Rightarrow> None
                     | Some (keywords, rest) \<Rightarrow>
                         if rest = '')'' then Some (paperId, keywords) else None))))"

definition click_title :: "row \<Rightarrow> string option" where
  \<comment> \<open>the address a click on the title cell navigates to\<close>
  "click_title r =
     (case attribute_value (row_title_onclick r) of None \<Rightarrow> None | Some js \<Rightarrow> read_navigation js)"

definition click_download :: "row \<Rightarrow> (int \<times> string) option" where
  \<comment> \<open>the arguments a click on the download button passes to \<^verbatim>\<open>downloadPaper\<close>\<close>
  "click_download r =
     (case attribute_value (row_download_onclick r) of None \<Rightarrow> None | Some js \<Rightarrow> read_download_call js)"

section \<open>Predicates and sample data\<close>

fun strip_sign :: "string \<Rightarrow> string" where
  "strip_sign [] = []"
| "strip_sign (c # cs) = (if c = CHR ''-'' then cs else c # cs)"

definition three_decimals :: "number_text \<Rightarrow> bool" where
  \<comment> \<open>an optional sign, digits, a point, exactly three digits\<close>
  "three_decimals t =
     (case t of
        General_notation v \<Rightarrow> False
      | Fixed_notation str \<Rightarrow>
          (let body = strip_sign str;
               whole = takeWhile is_digit body;
               rest = drop (length whole) body
           in whole \<noteq> [] \<and> length rest = 4 \<and> take 1 rest = ''.'' \<and> list_all is_digit (drop 1 rest)))"

definition plain_keywords :: "string \<Rightarrow> bool" where
  \<comment> \<open>no line feed, carriage return, double quote, ampersand, apostrophe or backslash\<close>
  "plain_keywords k = list_all (\<lambda>c. (of_char c :: nat) \<notin> set [10, 13, 34, 38, 39, 92]) k"

definition nodes_allocated :: "app \<Rightarrow> bool" where
  \<comment> \<open>the children of the body were created before the next node\<close>
  "nodes_allocated s = list_all (\<lambda>n. n < next_node s) (body_children s)"

definition loading_alone :: "app \<Rightarrow> bool" where
  \<comment> \<open>the loading indicator is not visible together with the results view or with the
      highlight section\<close>
  "loading_alone s = (loadingDiv_hidden s \<or> (resultsDiv_hidden s \<and> topPapersDiv_hidden s))"

definition path_absolute :: "string \<Rightarrow> bool" where
  \<comment> \<open>a reference that begins with one slash, not followed by a slash or a backslash (two
      of them begin an authority), and holds no tab or line break (an address is read
      without them)\<close>
  "path_absolute reference =
     (list_all (\<lambda>c. c \<notin> set [CHR 0x09, CHR 0x0A, CHR 0x0D]) reference
      \<and> (case reference of
            [] \<Rightarrow> False
          | c # cs \<Rightarrow>
              c = CHR ''/''
              \<and> (case cs of [] \<Rightarrow> True | d # ds \<Rightarrow> d \<noteq> CHR ''/'' \<and> d \<noteq> CHR 0x5C)))"

definition resolved_against_origin :: "string \<Rightarrow> string \<Rightarrow> string" where
  \<comment> \<open>follows the specification's words, "\<^verbatim>\<open>path\<close> is resolved against the current
      origin": the address that a reference which is a path denotes relative to the origin
      (a reference without scheme and without authority; dot segments are left as they are
      written). A path that does not begin with a slash is taken relative to the root\<close>
  "resolved_against_origin origin reference =
     (if take 1 reference = ''/'' then origin @ reference else origin @ ''/'' @ reference)"

subsection \<open>The text of interpolated markup\<close>

text \<open>
  The members of a paper are written into \<^verbatim>\<open>innerHTML\<close> as they are, so the fields of a
  card and of a row are markup, and what is displayed is the character data the browser
  reads from it. \<open>markup_scan\<close> reads the part of the markup language that matters here:
  characters other than \<^verbatim>\<open><\<close> and \<^verbatim>\<open>&\<close> are data; \<^verbatim>\<open><\<close> followed by a letter opens a
  tag, which runs to the next \<^verbatim>\<open>>\<close> and is no data; \<^verbatim>\<open><\<close> and \<^verbatim>\<open>&\<close> followed by
  something that begins neither a tag nor a character reference are data. The result is
  \<open>None\<close> outside this part: a tag whose name is longer than one letter or which has a
  quoted attribute or does not end, an end tag, a comment, a character reference, a carriage
  return or a null character. The flag says that the scan is inside a tag. The character
  data is the text the element holds; how the white space in it is laid out is left to
  the style sheet.
\<close>

definition is_letter :: "char \<Rightarrow> bool" where
  "is_letter c =
     ((65 \<le> (of_char c :: nat) \<and> (of_char c :: nat) \<le> 90)
      \<or> (97 \<le> (of_char c :: nat) \<and> (of_char c :: nat) \<le> 122))"

definition ends_tag_name :: "string \<Rightarrow> bool" where
  \<comment> \<open>the tag name ends here: white space or \<^verbatim>\<open>>\<close> follows\<close>
  "ends_tag_name cs =
     (case cs of [] \<Rightarrow> False
      | e # es \<Rightarrow> e \<in> set [CHR 0x09, CHR 0x0A, CHR 0x0C, CHR 0x20, CHR ''>''])"

fun markup_scan :: "bool \<Rightarrow> string \<Rightarrow> string option" where
  "markup_scan True [] = None"
| "markup_scan True (c # cs) =
     (if c = CHR ''>'' then markup_scan False cs
      else if c = CHR 0x22 \<or> c = CHR 0x27 \<or> c = CHR 0x00 \<or> c = CHR 0x0D then None
      else markup_scan True cs)"
| "markup_scan False [] = Some []"
| "markup_scan False (c # cs) =
     (if c = CHR 0x00 \<or> c = CHR 0x0D then None
      else if c = CHR ''&'' then
        (case cs of
           [] \<Rightarrow> Some [c]
         | d # ds \<Rightarrow>
             if is_letter d \<or> is_digit d \<or> d = CHR ''#'' then None
             else map_option ((#) c) (markup_scan False cs))
      else if c = CHR ''<'' then
        (case cs of
           [] \<Rightarrow> Some [c]
         | d # ds \<Rightarrow>
             if is_letter d then (if ends_tag_name ds then markup_scan True cs else None)
             else if d \<in> set [CHR ''/'', CHR ''!'', CHR ''?''] then None
             else map_option ((#) c) (markup_scan False cs))
      else map_option ((#) c) (markup_scan False cs))"

definition character_data :: "string \<Rightarrow> string option" where
  "character_data markup = markup_scan False markup"

definition markup_free :: "string \<Rightarrow> bool" where
  \<comment> \<open>no null character, carriage return, ampersand or \<^verbatim>\<open><\<close>\<close>
  "markup_free t = list_all (\<lambda>c. (of_char c :: nat) \<notin> set [0, 13, 38, 60]) t"

definition paper7 :: paper where
  "paper7 = \<lparr> paper_id = 7, title = ''Entanglement'', published = ''2024-01-01'',
      authors = [''A'', ''B'', ''C''], summary = ''On qubits'', relevance_score = Finite (7 / 8),
      is_top = True \<rparr>"

definition paper8 :: paper where
  "paper8 = \<lparr> paper_id = 8, title = ''Graphs'', published = ''2023-05-05'',
      authors = [''A'', ''B''], summary = ''On graphs'', relevance_score = Finite (1 / 4),
      is_top = False \<rparr>"

definition result7 :: search_result where
  "result7 = \<lparr> total_n = 42, top_papers = [paper7], papers = [paper7] \<rparr>"

definition result8 :: search_result where
  "result8 = \<lparr> total_n = 1, top_papers = [], papers = [paper8] \<rparr>"

definition loaded :: app where
  \<comment> \<open>the object after its constructor ran on a blank page without saved keywords\<close>
  "loaded = constructor ''http://localhost:8000'' None blank_page"


definition paper7_file :: download_file where
  "paper7_file = \<lparr> path = ''/files/7.pdf'', filename = ''paper7.pdf'' \<rparr>"

definition quantum_trace :: "event list" where
  \<comment> \<open>one search that succeeds\<close>
  "quantum_trace =
     [Edit_input ''quantum'', Click_search, Search_settles 0 (Search_ok (Json result7))]"

definition overlapping_trace :: "event list" where
  \<comment> \<open>a second search is submitted while the first is in flight; the second response
      arrives first\<close>
  "overlapping_trace =
     [Edit_input ''quantum'', Click_search, Edit_input ''graphs'', Click_search,
      Search_settles 1 (Search_ok (Json result8)), Search_settles 0 (Search_ok (Json result7))]"

definition blank_after_results_trace :: "event list" where
  "blank_after_results_trace =
     [Edit_input ''quantum'', Click_search, Search_settles 0 (Search_ok (Json result7)),
      Edit_input ''  '', Click_search]"

definition failed_after_results_trace :: "event list" where
  "failed_after_results_trace =
     [Edit_input ''quantum'', Click_search, Search_settles 0 (Search_ok (Json result7)),
      Edit_input ''graphs'', Click_search, Search_settles 1 (Search_fetch_rejects ''Failed to fetch'')]"

definition blank_while_loading_trace :: "event list" where
  \<comment> \<open>a blank submit while a search is in flight, which then succeeds\<close>
  "blank_while_loading_trace =
     [Edit_input ''quantum'', Click_search, Edit_input [], Click_search,
      Search_settles 0 (Search_ok (Json result7))]"

definition table_breaks_trace :: "event list" where
  \<comment> \<open>the response lacks \<^verbatim>\<open>papers\<close>: rendering throws after the results view was shown\<close>
  "table_breaks_trace =
     [Edit_input ''quantum'', Click_search,
      Search_settles 0
        (Search_ok_unshaped
          (Table_breaks \<lparr> total_n = 42, top_papers = [paper7], papers = [] \<rparr>
             ''Cannot read properties of undefined''))]"

definition relative_file :: download_file where
  "relative_file = \<lparr> path = ''files/7.pdf'', filename = ''paper7.pdf'' \<rparr>"

definition markup_title :: string where
  "markup_title = ''Bounds for p<q and r>s''"

definition apostrophe_keywords :: string where
  "apostrophe_keywords = ''Bell'' @ apostrophe @ ''s theorem''"

definition apostrophe_trace :: "event list" where
  "apostrophe_trace =
     [Edit_input apostrophe_keywords, Click_search, Search_settles 0 (Search_ok (Json result7))]"

section \<open>The loops of the presenter\<close>

text \<open>
  The two \<^verbatim>\<open>forEach\<close> loops append one element for each paper, in the order of the
  response; the keyword context does not change while they run.
\<close>

lemma foldl_appendCard: "foldl (appendCard s) acc ps = acc @ map (createTopPaperCard s) ps"
  by (induction ps arbitrary: acc) (simp_all add: appendCard_def)

lemma foldl_appendRow_rest:
  "foldl appendRow s ps = s\<lparr> papersTable := papersTable s @ map (createPaperRow s) ps \<rparr>"
proof (induction ps arbitrary: s)
  case Nil
  show ?case by simp
next
  case (Cons p ps)
  have "createPaperRow (appendRow s p) = createPaperRow s"
    by (rule ext) (simp add: createPaperRow_def appendRow_def)
  then show ?case
    by (simp add: Cons.IH) (simp add: appendRow_def)
qed

lemma displayTopPapers_eq:
  "displayTopPapers tp s =
     (if tp = [] then s\<lparr> topPapersDiv_children := [] \<rparr>
      else s\<lparr> topPapersDiv_children :=
                [Heading ''<i class=\"fas fa-star\"></i> Top 5 Most Relevant Papers'',
                 Container (map (createTopPaperCard s) tp)],
              topPapersDiv_hidden := False \<rparr>)"
  by (simp add: displayTopPapers_def Let_def foldl_appendCard createTopPaperCard_def)

lemma displayResults_eq:
  "displayResults d s =
     (displayTopPapers (top_papers d) s)
       \<lparr> resultsDiv_hidden := False, totalPapersSpan := decimal_int (total_n d),
         papersTable := map (createPaperRow s) (papers d) \<rparr>"
  by (simp add: displayResults_def Let_def foldl_appendRow_rest displayTopPapers_eq createPaperRow_def)

section \<open>Blank input\<close>

lemma trim_empty_iff: "trim raw = [] \<longleftrightarrow> (\<forall>c\<in>set raw. is_js_whitespace c)"
proof
  assume e: "trim raw = []"
  show "\<forall>c\<in>set raw. is_js_whitespace c"
  proof (rule ccontr)
    assume "\<not> (\<forall>c\<in>set raw. is_js_whitespace c)"
    then have ne: "dropWhile is_js_whitespace raw \<noteq> []"
      by (simp add: dropWhile_eq_Nil_conv)
    then have "\<not> is_js_whitespace (hd (dropWhile is_js_whitespace raw))"
      by (rule hd_dropWhile)
    moreover have "hd (dropWhile is_js_whitespace raw) \<in> set (rev (dropWhile is_js_whitespace raw))"
      using ne by simp
    ultimately have "dropWhile is_js_whitespace (rev (dropWhile is_js_whitespace raw)) \<noteq> []"
      by (auto simp: dropWhile_eq_Nil_conv)
    with e show False by (simp add: trim_def)
  qed
next
  assume "\<forall>c\<in>set raw. is_js_whitespace c"
  then have d: "dropWhile is_js_whitespace raw = []"
    by (simp add: dropWhile_eq_Nil_conv)
  show "trim raw = []" unfolding trim_def d by simp
qed

text \<open>
  Claim C3. When the trimmed value of the input is empty, a submit (a click on the search
  button, or Enter in the input) shows the error \<^verbatim>\<open>Please enter keywords\<close> and issues no
  request: the log of requests and the searches in flight are as before, and the loading
  indicator is not touched. By \<open>trim_empty_iff\<close> the hypothesis is that the input
  consists of white space only.
\<close>

theorem blank_submit_shows_error_without_request:
  assumes "trim (keywordsInput s) = []"
  shows "errorDiv_text (step s Click_search) = ''Please enter keywords''
       \<and> \<not> errorDiv_hidden (step s Click_search)
       \<and> fetches (step s Click_search) = fetches s
       \<and> searches_in_flight (step s Click_search) = searches_in_flight s
       \<and> loadingDiv_hidden (step s Click_search) = loadingDiv_hidden s
       \<and> step s (Keypress ''Enter'') = step s Click_search"
  using assms by (simp add: searchPapers_def showError_def)

theorem blank_submit_witness:
  "trim (keywordsInput (blank_page\<lparr> keywordsInput := ''   '' \<rparr>)) = []
   \<and> errorDiv_text (step (blank_page\<lparr> keywordsInput := ''   '' \<rparr>) Click_search) = ''Please enter keywords''
   \<and> fetches (step (blank_page\<lparr> keywordsInput := ''   '' \<rparr>) Click_search) = []"
proof -
  have h: "trim (keywordsInput (blank_page\<lparr> keywordsInput := ''   '' \<rparr>)) = []"
    by (simp add: trim_def is_js_whitespace_def)
  from blank_submit_shows_error_without_request [OF h] h show ?thesis
    by (simp add: blank_page_def)
qed

section \<open>Rendering\<close>

text \<open>
  Claim C8. Rendering the same search result twice in succession gives the same page as
  rendering it once. Whatever was rendered before, after a render the table holds exactly
  one row for each element of \<^verbatim>\<open>papers\<close>, in the order received, and the highlight section
  holds exactly the heading and one card for each element of \<^verbatim>\<open>top_papers\<close>, or nothing
  when there is none: both are emptied before they are filled. So the number of rows is the
  number of papers both times.
\<close>

theorem render_twice_same_table:
  "displayResults d (displayResults d s) = displayResults d s
   \<and> papersTable (displayResults d s) = map (createPaperRow s) (papers d)
   \<and> length (papersTable (displayResults d s)) = length (papers d)
   \<and> length (papersTable (displayResults d (displayResults d s))) = length (papers d)
   \<and> topPapersDiv_children (displayResults d s) =
       (if top_papers d = [] then []
        else [Heading ''<i class=\"fas fa-star\"></i> Top 5 Most Relevant Papers'',
              Container (map (createTopPaperCard s) (top_papers d))])
   \<and> topPapersDiv_children (displayResults d (displayResults d s)) =
       topPapersDiv_children (displayResults d s)"
  by (simp add: displayResults_eq displayTopPapers_eq createPaperRow_def createTopPaperCard_def)

section \<open>The transient anchor\<close>

lemma save_link_eq:
  "save_link d s =
     (if same_origin_address (window_origin s) (apiBase s @ path d)
      then s\<lparr> next_node := Suc (next_node s),
              body_children := remove1 (next_node s) (remove1 (next_node s) (body_children s) @ [next_node s]),
              saved_files := saved_files s @ [(apiBase s @ path d, filename d)] \<rparr>
      else s\<lparr> next_node := Suc (next_node s),
              body_children := remove1 (next_node s) (remove1 (next_node s) (body_children s) @ [next_node s]),
              clicks_elsewhere := clicks_elsewhere s @ [(apiBase s @ path d, filename d)] \<rparr>)"
  by (simp add: save_link_def createElement_a_def appendChild_def click_def removeChild_def)

lemma save_link_view:
  "loadingDiv_hidden (save_link d s) = loadingDiv_hidden s"
  "resultsDiv_hidden (save_link d s) = resultsDiv_hidden s"
  "topPapersDiv_hidden (save_link d s) = topPapersDiv_hidden s"
  "errorDiv_hidden (save_link d s) = errorDiv_hidden s"
  "currentKeywords (save_link d s) = currentKeywords s"
  "apiBase (save_link d s) = apiBase s"
  "window_origin (save_link d s) = window_origin s"
  by (simp_all add: save_link_eq)

lemma strip_prefix_append: "strip_prefix p (p @ rest) = Some rest"
  by (induction p) simp_all

lemma searchPapers_settled_keeps:
  "currentKeywords (searchPapers_settled outcome t) = currentKeywords t"
  "apiBase (searchPapers_settled outcome t) = apiBase t"
  "window_origin (searchPapers_settled outcome t) = window_origin t"
  "body_children (searchPapers_settled outcome t) = body_children t"
  "next_node (searchPapers_settled outcome t) = next_node t"
proof -
  have "currentKeywords (searchPapers_settled outcome t) = currentKeywords t
      \<and> apiBase (searchPapers_settled outcome t) = apiBase t
      \<and> window_origin (searchPapers_settled outcome t) = window_origin t
      \<and> body_children (searchPapers_settled outcome t) = body_children t
      \<and> next_node (searchPapers_settled outcome t) = next_node t"
  proof (cases "(outcome, t)" rule: search_try.cases)
    case (6 u t')
    then show ?thesis
      by (cases u)
        (simp_all add: searchPapers_settled_def hideLoading_def showError_def
          render_until_throw_def displayResults_eq displayTopPapers_eq)
  qed (simp_all add: searchPapers_settled_def hideLoading_def showError_def
        displayResults_eq displayTopPapers_eq)
  then show "currentKeywords (searchPapers_settled outcome t) = currentKeywords t"
    "apiBase (searchPapers_settled outcome t) = apiBase t"
    "window_origin (searchPapers_settled outcome t) = window_origin t"
    "body_children (searchPapers_settled outcome t) = body_children t"
    "next_node (searchPapers_settled outcome t) = next_node t"
    by simp_all
qed

section \<open>Visibility of the indicators\<close>

lemma searchPapers_settled_hides_loading: "loadingDiv_hidden (searchPapers_settled outcome s)"
  by (simp add: searchPapers_settled_def hideLoading_def)

lemma loading_alone_step: "loading_alone s \<Longrightarrow> loading_alone (step s e)"
proof (cases e)
  case (Search_settles r outcome)
  assume "loading_alone s"
  with Search_settles show ?thesis
    by (simp add: loading_alone_def searchPapers_settled_hides_loading)
next
  case (Download_settles r outcome)
  assume "loading_alone s"
  with Download_settles show ?thesis
    by (simp add: loading_alone_def downloadPaper_settled_def showError_def save_link_view
        split: sum.splits)
qed (auto simp add: loading_alone_def searchPapers_def Let_def showError_def showLoading_def
      downloadPaper_def)

lemma loading_alone_run: "loading_alone s \<Longrightarrow> loading_alone (run s es)"
  unfolding run_def by (induction es arbitrary: s) (simp_all add: loading_alone_step)

lemma loading_alone_constructor:
  "loading_alone page \<Longrightarrow> loading_alone (constructor origin saved page)"
  by (auto simp add: constructor_def loading_alone_def searchPapers_def Let_def showError_def
      showLoading_def split: option.splits)

text \<open>
  Claim C5 says that the loading, results and error indicators are mutually exclusive in
  every reachable state and that entering the error state hides the results. After a search
  that succeeded, a blank submit shows the error while the table and the highlight section
  stay visible; and a blank submit while a search is in flight shows the error next to the
  loading indicator.
\<close>

theorem error_and_results_both_visible_counterexample:
  "\<not> errorDiv_hidden (run loaded blank_after_results_trace)
   \<and> \<not> resultsDiv_hidden (run loaded blank_after_results_trace)
   \<and> \<not> topPapersDiv_hidden (run loaded blank_after_results_trace)
   \<and> errorDiv_text (run loaded blank_after_results_trace) = ''Please enter keywords''
   \<and> \<not> errorDiv_hidden (run loaded (take 4 blank_while_loading_trace))
   \<and> \<not> loadingDiv_hidden (run loaded (take 4 blank_while_loading_trace))"
  by code_simp

text \<open>
  Claim C5, as the script has it. On a page that is loaded with the loading indicator not
  visible together with the results view or the highlight section, in every state reached
  by any events the loading indicator is not visible together with the results view or
  with the highlight section: entering the loading state makes the loading indicator
  visible and hides the results view, the highlight section and any prior error. The error
  indicator is not exclusive: \<^verbatim>\<open>showError\<close> sets the message and makes the error
  indicator visible and changes nothing else, so the results view, the highlight section
  and the loading indicator keep the visibility they had, and the rendered rows, cards and
  total are not cleared.
\<close>

theorem loading_never_with_results:
  assumes "loadingDiv_hidden page \<or> (resultsDiv_hidden page \<and> topPapersDiv_hidden page)"
  shows "(loadingDiv_hidden (run (constructor origin saved page) es)
          \<or> (resultsDiv_hidden (run (constructor origin saved page) es)
              \<and> topPapersDiv_hidden (run (constructor origin saved page) es)))
       \<and> \<not> loadingDiv_hidden (showLoading s) \<and> resultsDiv_hidden (showLoading s)
       \<and> topPapersDiv_hidden (showLoading s) \<and> errorDiv_hidden (showLoading s)
       \<and> \<not> errorDiv_hidden (showError m s) \<and> errorDiv_text (showError m s) = m
       \<and> resultsDiv_hidden (showError m s) = resultsDiv_hidden s
       \<and> topPapersDiv_hidden (showError m s) = topPapersDiv_hidden s
       \<and> loadingDiv_hidden (showError m s) = loadingDiv_hidden s
       \<and> papersTable (showError m s) = papersTable s
       \<and> topPapersDiv_children (showError m s) = topPapersDiv_children s
       \<and> totalPapersSpan (showError m s) = totalPapersSpan s"
proof -
  from assms have "loading_alone page" by (simp add: loading_alone_def)
  then have "loading_alone (run (constructor origin saved page) es)"
    by (intro loading_alone_run loading_alone_constructor)
  then show ?thesis by (simp add: loading_alone_def showLoading_def showError_def)
qed

theorem loading_never_with_results_witness:
  "(loadingDiv_hidden blank_page \<or> (resultsDiv_hidden blank_page \<and> topPapersDiv_hidden blank_page))
   \<and> (loadingDiv_hidden (run (constructor ''http://localhost:8000'' None blank_page) overlapping_trace)
       \<or> (resultsDiv_hidden (run (constructor ''http://localhost:8000'' None blank_page) overlapping_trace)
           \<and> topPapersDiv_hidden (run (constructor ''http://localhost:8000'' None blank_page) overlapping_trace)))
   \<and> \<not> resultsDiv_hidden (run (constructor ''http://localhost:8000'' None blank_page) overlapping_trace)"
proof -
  have h: "loadingDiv_hidden blank_page \<or> (resultsDiv_hidden blank_page \<and> topPapersDiv_hidden blank_page)"
    by (simp add: blank_page_def)
  have v: "\<not> resultsDiv_hidden (run (constructor ''http://localhost:8000'' None blank_page) overlapping_trace)"
    by code_simp
  from loading_never_with_results [OF h, of "''http://localhost:8000''" None overlapping_trace] h v
  show ?thesis by blast
qed

section \<open>The stored keyword context\<close>

text \<open>
  Claim C6 says that a blank submit and a submit whose request fails leave the stored
  keyword context unchanged. After a search for \<^verbatim>\<open>quantum\<close> the context is
  \<^verbatim>\<open>quantum\<close>; a blank submit then empties it, and a submit of \<^verbatim>\<open>graphs\<close> whose
  request fails leaves it at \<^verbatim>\<open>graphs\<close>.
\<close>

theorem keywords_overwritten_counterexample:
  "currentKeywords (run loaded (take 3 blank_after_results_trace)) = ''quantum''
   \<and> currentKeywords (run loaded blank_after_results_trace) = []
   \<and> errorDiv_text (run loaded failed_after_results_trace) = ''Search failed: Failed to fetch''
   \<and> currentKeywords (run loaded failed_after_results_trace) = ''graphs''"
  by code_simp

text \<open>
  Claim C6, as the script has it. Every submit stores the trimmed input as the keyword
  context, before the input is validated and before the request is issued. No other event
  writes it: not the settling of a search, whether it succeeds or fails, not an edit of the
  input, not a download.
\<close>

theorem keywords_stored_at_every_submit:
  "currentKeywords (step s Click_search) = trim (keywordsInput s)
   \<and> currentKeywords (step s (Search_settles r outcome)) = currentKeywords s
   \<and> currentKeywords (step s (Edit_input text)) = currentKeywords s
   \<and> currentKeywords (step s (Call_downloadPaper i k)) = currentKeywords s
   \<and> currentKeywords (step s (Download_settles r dl)) = currentKeywords s"
proof -
  have "currentKeywords (searchPapers_settled outcome t) = currentKeywords t" for t
    by (rule searchPapers_settled_keeps)
  then show ?thesis
    by (simp add: searchPapers_def showError_def showLoading_def Let_def downloadPaper_def
        downloadPaper_settled_def save_link_view split: sum.splits)
qed

section \<open>One submit from loading to its outcome\<close>

lemma submit_enters_loading:
  assumes "trim (keywordsInput s) \<noteq> []"
  shows "\<not> loadingDiv_hidden (step s Click_search)
       \<and> resultsDiv_hidden (step s Click_search)
       \<and> topPapersDiv_hidden (step s Click_search)
       \<and> errorDiv_hidden (step s Click_search)
       \<and> fetches (step s Click_search) = fetches s @ [search_request s (trim (keywordsInput s))]
       \<and> length (fetches s) \<in> set (searches_in_flight (step s Click_search))"
  using assms by (simp add: searchPapers_def Let_def showLoading_def search_request_def)

lemma settled_shows_one_at_least:
  "loadingDiv_hidden (searchPapers_settled outcome s)
   \<and> (\<not> resultsDiv_hidden (searchPapers_settled outcome s)
       \<or> \<not> errorDiv_hidden (searchPapers_settled outcome s))"
proof (cases "search_try outcome s")
  case (Inl thrown)
  then show ?thesis
    by (cases thrown) (simp add: searchPapers_settled_def hideLoading_def showError_def)
next
  case (Inr s')
  then obtain d where "outcome = Search_ok (Json d)"
    by (cases "(outcome, s)" rule: search_try.cases) simp_all
  then show ?thesis
    by (simp add: searchPapers_settled_def hideLoading_def displayResults_eq displayTopPapers_eq)
qed

lemma throw_before_results_view:
  assumes "\<forall>d m. outcome \<noteq> Search_ok_unshaped (Table_breaks d m)"
    and "search_try outcome s = Inl (m, s')"
  shows "resultsDiv_hidden s' = resultsDiv_hidden s"
proof (cases "(outcome, s)" rule: search_try.cases)
  case (6 u t)
  with assms show ?thesis
    by (cases u) (auto simp add: render_until_throw_def)
qed (use assms in auto)

lemma settled_shows_exactly_one:
  assumes "resultsDiv_hidden s" and "errorDiv_hidden s"
    and "\<forall>d m. outcome \<noteq> Search_ok_unshaped (Table_breaks d m)"
  shows "resultsDiv_hidden (searchPapers_settled outcome s)
           \<noteq> errorDiv_hidden (searchPapers_settled outcome s)
       \<and> (errorDiv_hidden (searchPapers_settled outcome s) \<longleftrightarrow> (\<exists>d. outcome = Search_ok (Json d)))"
proof (cases "search_try outcome s")
  case (Inl thrown)
  obtain m s' where t: "thrown = (m, s')" by (cases thrown)
  with Inl have tr: "search_try outcome s = Inl (m, s')" by simp
  then have n: "\<not> (\<exists>d. outcome = Search_ok (Json d))" by auto
  from throw_before_results_view [OF assms(3) tr] assms(1) have "resultsDiv_hidden s'" by simp
  then have "resultsDiv_hidden (searchPapers_settled outcome s)
      \<and> \<not> errorDiv_hidden (searchPapers_settled outcome s)"
    using tr by (simp add: searchPapers_settled_def hideLoading_def showError_def)
  with n show ?thesis by simp
next
  case (Inr s')
  then obtain d where o: "outcome = Search_ok (Json d)"
    by (cases "(outcome, s)" rule: search_try.cases) simp_all
  then have "\<not> resultsDiv_hidden (searchPapers_settled outcome s)
      \<and> errorDiv_hidden (searchPapers_settled outcome s)"
    using assms(2)
    by (simp add: searchPapers_settled_def hideLoading_def displayResults_eq displayTopPapers_eq)
  with o show ?thesis by blast
qed

text \<open>
  Claim C2 says that after the request of a submit settles exactly one of the results view
  and the error indicator is shown, never both. A blank submit while the search for
  \<^verbatim>\<open>quantum\<close> is in flight shows an error that the rendering of the results does not
  hide; and a response that lacks \<^verbatim>\<open>papers\<close> makes rendering throw after the results view
  was shown. In both runs one request was issued, the loading indicator is hidden at the
  end, and the results view and the error indicator are both visible.
\<close>

theorem results_and_error_after_settling_counterexample:
  "map req_keywords (fetches (run loaded blank_while_loading_trace)) = [''quantum'']
   \<and> loadingDiv_hidden (run loaded blank_while_loading_trace)
   \<and> \<not> resultsDiv_hidden (run loaded blank_while_loading_trace)
   \<and> \<not> errorDiv_hidden (run loaded blank_while_loading_trace)
   \<and> map req_keywords (fetches (run loaded table_breaks_trace)) = [''quantum'']
   \<and> loadingDiv_hidden (run loaded table_breaks_trace)
   \<and> \<not> resultsDiv_hidden (run loaded table_breaks_trace)
   \<and> \<not> errorDiv_hidden (run loaded table_breaks_trace)"
  by code_simp

text \<open>
  Claim C2, as the script has it. For an input whose trimmed value is not empty, a submit
  shows the loading indicator, with the results view, the highlight section and the error
  hidden, and issues the search request, all before any response. Whenever a search in
  flight settles, whatever happened since its submit and whatever its outcome (the request
  rejected, a status that is not a success, a body that does not parse, a result, or a body
  on which rendering throws), the loading indicator is hidden and at least one of the
  results view and the error indicator is visible. Exactly one of them is visible when
  neither was visible before the request settled and rendering does not throw while it
  fills the table: the results view when a result was parsed from a successful response,
  the error otherwise. This is so in particular when the request settles before any other
  event.
\<close>

theorem submit_loading_then_outcome:
  "(trim (keywordsInput s) \<noteq> [] \<longrightarrow>
       \<not> loadingDiv_hidden (step s Click_search)
     \<and> resultsDiv_hidden (step s Click_search)
     \<and> topPapersDiv_hidden (step s Click_search)
     \<and> errorDiv_hidden (step s Click_search)
     \<and> fetches (step s Click_search) = fetches s @ [search_request s (trim (keywordsInput s))]
     \<and> length (fetches s) \<in> set (searches_in_flight (step s Click_search)))
   \<and> (r \<in> set (searches_in_flight s) \<longrightarrow>
       loadingDiv_hidden (step s (Search_settles r outcome))
     \<and> (\<not> resultsDiv_hidden (step s (Search_settles r outcome))
         \<or> \<not> errorDiv_hidden (step s (Search_settles r outcome))))
   \<and> (r \<in> set (searches_in_flight s) \<and> resultsDiv_hidden s \<and> errorDiv_hidden s
       \<and> (\<forall>d m. outcome \<noteq> Search_ok_unshaped (Table_breaks d m)) \<longrightarrow>
       resultsDiv_hidden (step s (Search_settles r outcome))
         \<noteq> errorDiv_hidden (step s (Search_settles r outcome))
     \<and> (errorDiv_hidden (step s (Search_settles r outcome))
          \<longleftrightarrow> (\<exists>d. outcome = Search_ok (Json d))))
   \<and> (trim (keywordsInput s) \<noteq> []
       \<and> (\<forall>d m. outcome \<noteq> Search_ok_unshaped (Table_breaks d m)) \<longrightarrow>
       loadingDiv_hidden (step (step s Click_search) (Search_settles (length (fetches s)) outcome))
     \<and> resultsDiv_hidden (step (step s Click_search) (Search_settles (length (fetches s)) outcome))
         \<noteq> errorDiv_hidden (step (step s Click_search) (Search_settles (length (fetches s)) outcome))
     \<and> (errorDiv_hidden (step (step s Click_search) (Search_settles (length (fetches s)) outcome))
          \<longleftrightarrow> (\<exists>d. outcome = Search_ok (Json d))))"
proof -
  have settle: "r' \<in> set (searches_in_flight t) \<Longrightarrow>
      step t (Search_settles r' outcome)
        = searchPapers_settled outcome (t\<lparr> searches_in_flight := removeAll r' (searches_in_flight t) \<rparr>)"
    for r' t by simp
  have p1: "trim (keywordsInput s) \<noteq> [] \<longrightarrow>
       \<not> loadingDiv_hidden (step s Click_search)
     \<and> resultsDiv_hidden (step s Click_search)
     \<and> topPapersDiv_hidden (step s Click_search)
     \<and> errorDiv_hidden (step s Click_search)
     \<and> fetches (step s Click_search) = fetches s @ [search_request s (trim (keywordsInput s))]
     \<and> length (fetches s) \<in> set (searches_in_flight (step s Click_search))"
    using submit_enters_loading by blast
  have p2: "r' \<in> set (searches_in_flight t) \<longrightarrow>
       loadingDiv_hidden (step t (Search_settles r' outcome))
     \<and> (\<not> resultsDiv_hidden (step t (Search_settles r' outcome))
         \<or> \<not> errorDiv_hidden (step t (Search_settles r' outcome)))" for r' t
  proof
    assume a: "r' \<in> set (searches_in_flight t)"
    show "loadingDiv_hidden (step t (Search_settles r' outcome))
     \<and> (\<not> resultsDiv_hidden (step t (Search_settles r' outcome))
         \<or> \<not> errorDiv_hidden (step t (Search_settles r' outcome)))"
      unfolding settle [OF a] by (rule settled_shows_one_at_least)
  qed
  have p3: "r' \<in> set (searches_in_flight t) \<and> resultsDiv_hidden t \<and> errorDiv_hidden t
       \<and> (\<forall>d m. outcome \<noteq> Search_ok_unshaped (Table_breaks d m)) \<longrightarrow>
       resultsDiv_hidden (step t (Search_settles r' outcome))
         \<noteq> errorDiv_hidden (step t (Search_settles r' outcome))
     \<and> (errorDiv_hidden (step t (Search_settles r' outcome))
          \<longleftrightarrow> (\<exists>d. outcome = Search_ok (Json d)))" for r' t
  proof (intro impI, elim conjE)
    assume a: "r' \<in> set (searches_in_flight t)" and h: "resultsDiv_hidden t" "errorDiv_hidden t"
      and u: "\<forall>d m. outcome \<noteq> Search_ok_unshaped (Table_breaks d m)"
    let ?t = "t\<lparr> searches_in_flight := removeAll r' (searches_in_flight t) \<rparr>"
    have "resultsDiv_hidden ?t" "errorDiv_hidden ?t" using h by simp_all
    then show "resultsDiv_hidden (step t (Search_settles r' outcome))
         \<noteq> errorDiv_hidden (step t (Search_settles r' outcome))
     \<and> (errorDiv_hidden (step t (Search_settles r' outcome))
          \<longleftrightarrow> (\<exists>d. outcome = Search_ok (Json d)))"
      unfolding settle [OF a] using u by (rule settled_shows_exactly_one)
  qed
  have p4: "trim (keywordsInput s) \<noteq> []
       \<and> (\<forall>d m. outcome \<noteq> Search_ok_unshaped (Table_breaks d m)) \<longrightarrow>
       loadingDiv_hidden (step (step s Click_search) (Search_settles (length (fetches s)) outcome))
     \<and> resultsDiv_hidden (step (step s Click_search) (Search_settles (length (fetches s)) outcome))
         \<noteq> errorDiv_hidden (step (step s Click_search) (Search_settles (length (fetches s)) outcome))
     \<and> (errorDiv_hidden (step (step s Click_search) (Search_settles (length (fetches s)) outcome))
          \<longleftrightarrow> (\<exists>d. outcome = Search_ok (Json d)))"
    using p1 p2 [of "length (fetches s)" "step s Click_search"]
      p3 [of "length (fetches s)" "step s Click_search"]
    by blast
  from p1 p2 [of r s] p3 [of r s] p4 show ?thesis by blast
qed

theorem submit_loading_then_outcome_witness:
  "trim (keywordsInput (run loaded (take 2 quantum_trace))) \<noteq> []
   \<and> 0 \<in> set (searches_in_flight (run loaded (take 2 quantum_trace)))
   \<and> resultsDiv_hidden (run loaded (take 2 quantum_trace))
   \<and> errorDiv_hidden (run loaded (take 2 quantum_trace))
   \<and> (\<forall>d m. Search_not_ok 500 (Json None) \<noteq> Search_ok_unshaped (Table_breaks d m))
   \<and> loadingDiv_hidden
        (step (run loaded (take 2 quantum_trace)) (Search_settles 0 (Search_not_ok 500 (Json None))))
   \<and> resultsDiv_hidden
        (step (run loaded (take 2 quantum_trace)) (Search_settles 0 (Search_not_ok 500 (Json None))))
   \<and> \<not> errorDiv_hidden
        (step (run loaded (take 2 quantum_trace)) (Search_settles 0 (Search_not_ok 500 (Json None))))
   \<and> \<not> loadingDiv_hidden (step (run loaded (take 2 quantum_trace)) Click_search)"
proof -
  have h1: "trim (keywordsInput (run loaded (take 2 quantum_trace))) \<noteq> []"
    by code_simp
  have h2: "0 \<in> set (searches_in_flight (run loaded (take 2 quantum_trace)))"
    by code_simp
  have h3: "resultsDiv_hidden (run loaded (take 2 quantum_trace))"
    and h4: "errorDiv_hidden (run loaded (take 2 quantum_trace))"
    by code_simp+
  have h5: "\<forall>d m. Search_not_ok 500 (Json None) \<noteq> Search_ok_unshaped (Table_breaks d m)"
    by simp
  have h6: "\<not> (\<exists>d. Search_not_ok 500 (Json None) = Search_ok (Json d))"
    by simp
  from submit_loading_then_outcome
    [of "run loaded (take 2 quantum_trace)" 0 "Search_not_ok 500 (Json None)"] h1 h2 h3 h4 h5 h6
  show ?thesis by blast
qed

section \<open>Overlapping searches\<close>

text \<open>
  Claim C1 says that only the response of the most recently issued request is ever rendered.
  Two searches are submitted, \<^verbatim>\<open>quantum\<close> and then \<^verbatim>\<open>graphs\<close>, and the response to
  the second (paper 8) arrives before the response to the first (paper 7). At the end the
  visible table holds paper 7, the response of the earlier request, and not the rows of the
  latest request's response.
\<close>

theorem stale_response_overwrites_counterexample:
  "map req_keywords (fetches (run loaded overlapping_trace)) = [''quantum'', ''graphs'']
   \<and> map row_id (papersTable (run loaded overlapping_trace)) = [''7'']
   \<and> map (\<lambda>p. decimal_int (paper_id p)) (papers result8) = [''8'']
   \<and> \<not> resultsDiv_hidden (run loaded overlapping_trace)
   \<and> papersTable (run loaded overlapping_trace)
       \<noteq> map (createPaperRow (run loaded overlapping_trace)) (papers result8)"
  by code_simp

text \<open>
  Claim C1, as the script has it. A response is rendered when it arrives, whichever request
  it answers: the settling of any search in flight with a result fills the table with the
  rows of that result, built with the keyword context stored at that moment, and shows the
  results view. A new submit leaves the earlier searches in flight. So the results view
  reflects the response that arrived last.
\<close>

theorem arriving_response_is_rendered:
  assumes "r \<in> set (searches_in_flight s)"
  shows "papersTable (step s (Search_settles r (Search_ok (Json d)))) = map (createPaperRow s) (papers d)
       \<and> totalPapersSpan (step s (Search_settles r (Search_ok (Json d)))) = decimal_int (total_n d)
       \<and> \<not> resultsDiv_hidden (step s (Search_settles r (Search_ok (Json d))))
       \<and> set (searches_in_flight s) \<subseteq> set (searches_in_flight (step s Click_search))"
proof -
  have "createPaperRow (s\<lparr> searches_in_flight := removeAll r (searches_in_flight s) \<rparr>) = createPaperRow s"
    by (rule ext) (simp add: createPaperRow_def)
  then show ?thesis using assms
    by (auto simp add: searchPapers_settled_def hideLoading_def displayResults_eq displayTopPapers_eq
        searchPapers_def Let_def showError_def showLoading_def)
qed

theorem arriving_response_is_rendered_witness:
  "0 \<in> set (searches_in_flight (run loaded (take 4 overlapping_trace)))
   \<and> papersTable (step (run loaded (take 4 overlapping_trace)) (Search_settles 0 (Search_ok (Json result7))))
       = map (createPaperRow (run loaded (take 4 overlapping_trace))) (papers result7)
   \<and> currentKeywords (run loaded (take 4 overlapping_trace)) = ''graphs''"
proof -
  have h: "0 \<in> set (searches_in_flight (run loaded (take 4 overlapping_trace)))"
    by code_simp
  have k: "currentKeywords (run loaded (take 4 overlapping_trace)) = ''graphs''"
    by code_simp
  from arriving_response_is_rendered [OF h, of result7] h k
  show ?thesis by blast
qed

section \<open>Downloads\<close>

lemma download_response_failures:
  "download_response (Download_fetch_rejects m) = Inl m"
  "download_response (Download_not_ok status (Json_rejects m)) = Inl m"
  "download_response (Download_ok (Json_rejects m)) = Inl m"
  "download_response (Download_not_ok status (Json (Some detail))) =
     Inl (if detail = [] then ''Download failed'' else detail)"
  "download_response (Download_not_ok status (Json None)) = Inl ''Download failed''"
  by (simp_all add: or_else_def)

lemma download_failure_thrown:
  "(\<forall>d. outcome \<noteq> Download_ok (Json d)) \<Longrightarrow> \<exists>m. download_response outcome = Inl m"
  by (cases outcome rule: download_response.cases) simp_all

lemma remove1_fresh_append: "n \<notin> set xs \<Longrightarrow> remove1 n (remove1 n xs @ [n]) = xs"
  by (simp add: remove1_idem remove1_append)

lemma nodes_allocated_fresh: "nodes_allocated s \<Longrightarrow> next_node s \<notin> set (body_children s)"
  by (auto simp: nodes_allocated_def list_all_iff)

text \<open>
  Claim C9. When a download fails, the error indicator shows \<^verbatim>\<open>Download failed: \<close>
  followed by the message of the error: the message of the rejection when the request is
  rejected or the body does not parse, whatever the status, and for a status that is not a
  success the detail of the response, or \<^verbatim>\<open>Download failed\<close> when the detail is missing
  or empty. For every outcome other than a parsed successful response the error indicator
  is visible afterwards, the results view and the highlight section keep their visibility,
  and the table, the cards and the total are unchanged; so also when the failure arrives
  as an event of the page.
\<close>

theorem download_failure_message_keeps_results:
  "errorDiv_text (downloadPaper_settled (Download_fetch_rejects m) s) = ''Download failed: '' @ m
   \<and> errorDiv_text (downloadPaper_settled (Download_not_ok status (Json_rejects m)) s)
       = ''Download failed: '' @ m
   \<and> errorDiv_text (downloadPaper_settled (Download_ok (Json_rejects m)) s)
       = ''Download failed: '' @ m
   \<and> errorDiv_text (downloadPaper_settled (Download_not_ok status (Json (Some detail))) s)
       = ''Download failed: '' @ (if detail = [] then ''Download failed'' else detail)
   \<and> errorDiv_text (downloadPaper_settled (Download_not_ok status (Json None)) s)
       = ''Download failed: Download failed''
   \<and> ((\<forall>d. outcome \<noteq> Download_ok (Json d)) \<longrightarrow>
         \<not> errorDiv_hidden (downloadPaper_settled outcome s)
       \<and> resultsDiv_hidden (downloadPaper_settled outcome s) = resultsDiv_hidden s
       \<and> topPapersDiv_hidden (downloadPaper_settled outcome s) = topPapersDiv_hidden s
       \<and> papersTable (downloadPaper_settled outcome s) = papersTable s
       \<and> topPapersDiv_children (downloadPaper_settled outcome s) = topPapersDiv_children s
       \<and> totalPapersSpan (downloadPaper_settled outcome s) = totalPapersSpan s)
   \<and> (r \<in> set (downloads_in_flight s) \<and> (\<forall>d. outcome \<noteq> Download_ok (Json d)) \<longrightarrow>
         errorDiv_text (step s (Download_settles r outcome))
           = errorDiv_text (downloadPaper_settled outcome s)
       \<and> \<not> errorDiv_hidden (step s (Download_settles r outcome))
       \<and> resultsDiv_hidden (step s (Download_settles r outcome)) = resultsDiv_hidden s
       \<and> topPapersDiv_hidden (step s (Download_settles r outcome)) = topPapersDiv_hidden s
       \<and> papersTable (step s (Download_settles r outcome)) = papersTable s
       \<and> topPapersDiv_children (step s (Download_settles r outcome)) = topPapersDiv_children s
       \<and> totalPapersSpan (step s (Download_settles r outcome)) = totalPapersSpan s)"
proof -
  have texts: "errorDiv_text (downloadPaper_settled (Download_fetch_rejects m) s) = ''Download failed: '' @ m
   \<and> errorDiv_text (downloadPaper_settled (Download_not_ok status (Json_rejects m)) s)
       = ''Download failed: '' @ m
   \<and> errorDiv_text (downloadPaper_settled (Download_ok (Json_rejects m)) s)
       = ''Download failed: '' @ m
   \<and> errorDiv_text (downloadPaper_settled (Download_not_ok status (Json (Some detail))) s)
       = ''Download failed: '' @ (if detail = [] then ''Download failed'' else detail)
   \<and> errorDiv_text (downloadPaper_settled (Download_not_ok status (Json None)) s)
       = ''Download failed: Download failed''"
    by (simp add: downloadPaper_settled_def showError_def or_else_def)
  have frame: "(\<forall>d. outcome \<noteq> Download_ok (Json d)) \<longrightarrow>
         \<not> errorDiv_hidden (downloadPaper_settled outcome t)
       \<and> resultsDiv_hidden (downloadPaper_settled outcome t) = resultsDiv_hidden t
       \<and> topPapersDiv_hidden (downloadPaper_settled outcome t) = topPapersDiv_hidden t
       \<and> papersTable (downloadPaper_settled outcome t) = papersTable t
       \<and> topPapersDiv_children (downloadPaper_settled outcome t) = topPapersDiv_children t
       \<and> totalPapersSpan (downloadPaper_settled outcome t) = totalPapersSpan t
       \<and> errorDiv_text (downloadPaper_settled outcome t)
           = errorDiv_text (downloadPaper_settled outcome s)" for t
  proof
    assume "\<forall>d. outcome \<noteq> Download_ok (Json d)"
    then obtain e where "download_response outcome = Inl e"
      using download_failure_thrown by blast
    then show "\<not> errorDiv_hidden (downloadPaper_settled outcome t)
       \<and> resultsDiv_hidden (downloadPaper_settled outcome t) = resultsDiv_hidden t
       \<and> topPapersDiv_hidden (downloadPaper_settled outcome t) = topPapersDiv_hidden t
       \<and> papersTable (downloadPaper_settled outcome t) = papersTable t
       \<and> topPapersDiv_children (downloadPaper_settled outcome t) = topPapersDiv_children t
       \<and> totalPapersSpan (downloadPaper_settled outcome t) = totalPapersSpan t
       \<and> errorDiv_text (downloadPaper_settled outcome t)
           = errorDiv_text (downloadPaper_settled outcome s)"
      by (simp add: downloadPaper_settled_def showError_def)
  qed
  have event: "r \<in> set (downloads_in_flight s) \<and> (\<forall>d. outcome \<noteq> Download_ok (Json d)) \<longrightarrow>
         errorDiv_text (step s (Download_settles r outcome))
           = errorDiv_text (downloadPaper_settled outcome s)
       \<and> \<not> errorDiv_hidden (step s (Download_settles r outcome))
       \<and> resultsDiv_hidden (step s (Download_settles r outcome)) = resultsDiv_hidden s
       \<and> topPapersDiv_hidden (step s (Download_settles r outcome)) = topPapersDiv_hidden s
       \<and> papersTable (step s (Download_settles r outcome)) = papersTable s
       \<and> topPapersDiv_children (step s (Download_settles r outcome)) = topPapersDiv_children s
       \<and> totalPapersSpan (step s (Download_settles r outcome)) = totalPapersSpan s"
    using frame [of "s\<lparr> downloads_in_flight := removeAll r (downloads_in_flight s) \<rparr>"]
    by simp
  from texts frame [of s] event show ?thesis by blast
qed

theorem download_failure_message_keeps_results_witness:
  "(\<forall>d. Download_not_ok 404 (Json (Some ''not found'')) \<noteq> Download_ok (Json d))
   \<and> errorDiv_text (downloadPaper_settled (Download_not_ok 404 (Json (Some ''not found'')))
        (run loaded quantum_trace)) = ''Download failed: not found''
   \<and> \<not> errorDiv_hidden (downloadPaper_settled (Download_not_ok 404 (Json (Some ''not found'')))
        (run loaded quantum_trace))
   \<and> \<not> resultsDiv_hidden (downloadPaper_settled (Download_not_ok 404 (Json (Some ''not found'')))
        (run loaded quantum_trace))
   \<and> papersTable (downloadPaper_settled (Download_not_ok 404 (Json (Some ''not found'')))
        (run loaded quantum_trace)) = papersTable (run loaded quantum_trace)"
proof -
  have h: "\<forall>d. Download_not_ok 404 (Json (Some ''not found'')) \<noteq> Download_ok (Json d)"
    by simp
  have v: "\<not> resultsDiv_hidden (run loaded quantum_trace)"
    by code_simp
  have n: "(if ''not found'' = [] then ''Download failed'' else ''not found'') = ''not found''"
    by simp
  from download_failure_message_keeps_results
    [where s = "run loaded quantum_trace" and status = 404 and detail = "''not found''"
       and outcome = "Download_not_ok 404 (Json (Some ''not found''))"] h v
  show ?thesis unfolding n by simp
qed

text \<open>
  Every state the page reaches has its body's children allocated and has the origin of the
  page as its \<^verbatim>\<open>apiBase\<close>.
\<close>

lemma nodes_allocated_step: "nodes_allocated s \<Longrightarrow> nodes_allocated (step s e)"
proof (cases e)
  case (Download_settles r outcome)
  assume a: "nodes_allocated s"
  show ?thesis
  proof (cases "download_response outcome")
    case (Inl m)
    with a Download_settles show ?thesis
      by (simp add: nodes_allocated_def downloadPaper_settled_def showError_def)
  next
    case (Inr d)
    have "remove1 (next_node s) (remove1 (next_node s) (body_children s) @ [next_node s]) = body_children s"
      using remove1_fresh_append [OF nodes_allocated_fresh [OF a]] .
    with a Inr Download_settles show ?thesis
      by (auto simp add: nodes_allocated_def downloadPaper_settled_def save_link_eq list_all_iff)
  qed
qed (simp_all add: nodes_allocated_def searchPapers_def Let_def showError_def showLoading_def
      searchPapers_settled_keeps downloadPaper_def)

lemma nodes_allocated_run: "nodes_allocated s \<Longrightarrow> nodes_allocated (run s es)"
  unfolding run_def by (induction es arbitrary: s) (simp_all add: nodes_allocated_step)

lemma nodes_allocated_constructor:
  "nodes_allocated page \<Longrightarrow> nodes_allocated (constructor origin saved page)"
  by (simp add: constructor_def nodes_allocated_def searchPapers_def Let_def showError_def
      showLoading_def split: option.splits)

lemma origin_kept_step:
  "apiBase (step s e) = apiBase s \<and> window_origin (step s e) = window_origin s"
  by (cases e)
    (simp_all add: searchPapers_def Let_def showError_def showLoading_def
      searchPapers_settled_keeps downloadPaper_def downloadPaper_settled_def save_link_view
      split: sum.splits)

lemma origin_kept_run:
  "apiBase (run s es) = apiBase s \<and> window_origin (run s es) = window_origin s"
  unfolding run_def by (induction es arbitrary: s) (simp_all add: origin_kept_step)

lemma origin_kept_constructor:
  "apiBase (constructor origin saved page) = origin
   \<and> window_origin (constructor origin saved page) = origin"
  by (simp add: constructor_def searchPapers_def Let_def showError_def showLoading_def
      split: option.splits)

lemma path_absolute_slash: "path_absolute p \<Longrightarrow> take 1 p = ''/''"
  by (cases p) (simp_all add: path_absolute_def)

lemma same_origin_address_slash:
  "path_absolute p \<Longrightarrow> same_origin_address origin (origin @ p)"
  by (cases p) (simp_all add: path_absolute_def same_origin_address_def strip_prefix_append)

text \<open>
  Claim C10 says that the address of the download is \<^verbatim>\<open>path\<close> resolved against the origin
  and that the file is saved under the returned name. For the path \<^verbatim>\<open>files/7.pdf\<close> the
  address of the anchor is \<^verbatim>\<open>http://localhost:8000files/7.pdf\<close>, which is not the resolved
  address \<^verbatim>\<open>http://localhost:8000/files/7.pdf\<close> and is not an address of the page's
  origin: nothing is saved.
\<close>

theorem relative_path_not_resolved_counterexample:
  "window_origin (run loaded quantum_trace) = ''http://localhost:8000''
   \<and> path relative_file = ''files/7.pdf''
   \<and> saved_files (downloadPaper_settled (Download_ok (Json relative_file)) (run loaded quantum_trace)) = []
   \<and> clicks_elsewhere (downloadPaper_settled (Download_ok (Json relative_file)) (run loaded quantum_trace))
       = [(''http://localhost:8000files/7.pdf'', ''paper7.pdf'')]
   \<and> resolved_against_origin (window_origin (run loaded quantum_trace)) (path relative_file)
       = ''http://localhost:8000/files/7.pdf''"
  by code_simp

text \<open>
  Claim C10, as the script has it. When a download succeeds with \<^verbatim>\<open>{path, filename}\<close>,
  the address of the anchor is the origin followed by \<^verbatim>\<open>path\<close>, one text after the other,
  and the anchor is clicked once. When \<^verbatim>\<open>path\<close> begins with one slash (and is
  \<open>path_absolute\<close>), that address is \<^verbatim>\<open>path\<close> resolved against the origin, the file is
  saved under \<^verbatim>\<open>filename\<close> and the page is not left. For every path the children of the body are the same as before: the
  anchor that was appended is removed. When a download fails no anchor is created, so the
  children of the body, the saved files and the clicks that leave the page are unchanged
  too. The hypotheses hold in every state the page reaches (\<open>nodes_allocated_run\<close>,
  \<open>origin_kept_run\<close>).
\<close>

theorem download_saves_file_and_cleans_up:
  assumes "nodes_allocated s" and "apiBase s = window_origin s"
  shows "(path_absolute (path d) \<longrightarrow>
            saved_files (downloadPaper_settled (Download_ok (Json d)) s)
              = saved_files s @ [(resolved_against_origin (window_origin s) (path d), filename d)]
          \<and> clicks_elsewhere (downloadPaper_settled (Download_ok (Json d)) s) = clicks_elsewhere s)
       \<and> (saved_files (downloadPaper_settled (Download_ok (Json d)) s)
              = saved_files s @ [(window_origin s @ path d, filename d)]
            \<and> clicks_elsewhere (downloadPaper_settled (Download_ok (Json d)) s) = clicks_elsewhere s
          \<or> saved_files (downloadPaper_settled (Download_ok (Json d)) s) = saved_files s
            \<and> clicks_elsewhere (downloadPaper_settled (Download_ok (Json d)) s)
              = clicks_elsewhere s @ [(window_origin s @ path d, filename d)])
       \<and> body_children (downloadPaper_settled (Download_ok (Json d)) s) = body_children s
       \<and> ((\<forall>f. outcome \<noteq> Download_ok (Json f)) \<longrightarrow>
             body_children (downloadPaper_settled outcome s) = body_children s
           \<and> saved_files (downloadPaper_settled outcome s) = saved_files s
           \<and> clicks_elsewhere (downloadPaper_settled outcome s) = clicks_elsewhere s)"
proof -
  have body: "remove1 (next_node s) (remove1 (next_node s) (body_children s) @ [next_node s])
      = body_children s"
    using remove1_fresh_append [OF nodes_allocated_fresh [OF assms(1)]] .
  have slash: "path_absolute (path d) \<longrightarrow>
            saved_files (downloadPaper_settled (Download_ok (Json d)) s)
              = saved_files s @ [(resolved_against_origin (window_origin s) (path d), filename d)]
          \<and> clicks_elsewhere (downloadPaper_settled (Download_ok (Json d)) s) = clicks_elsewhere s"
  proof
    assume a: "path_absolute (path d)"
    then have p: "take 1 (path d) = ''/''" by (rule path_absolute_slash)
    from same_origin_address_slash [OF a, of "window_origin s"]
    show "saved_files (downloadPaper_settled (Download_ok (Json d)) s)
              = saved_files s @ [(resolved_against_origin (window_origin s) (path d), filename d)]
          \<and> clicks_elsewhere (downloadPaper_settled (Download_ok (Json d)) s) = clicks_elsewhere s"
      using p assms(2)
      by (simp add: downloadPaper_settled_def save_link_eq resolved_against_origin_def)
  qed
  have any: "(saved_files (downloadPaper_settled (Download_ok (Json d)) s)
              = saved_files s @ [(window_origin s @ path d, filename d)]
            \<and> clicks_elsewhere (downloadPaper_settled (Download_ok (Json d)) s) = clicks_elsewhere s
          \<or> saved_files (downloadPaper_settled (Download_ok (Json d)) s) = saved_files s
            \<and> clicks_elsewhere (downloadPaper_settled (Download_ok (Json d)) s)
              = clicks_elsewhere s @ [(window_origin s @ path d, filename d)])
       \<and> body_children (downloadPaper_settled (Download_ok (Json d)) s) = body_children s"
    using body assms(2) by (simp add: downloadPaper_settled_def save_link_eq)
  have failed: "(\<forall>f. outcome \<noteq> Download_ok (Json f)) \<longrightarrow>
             body_children (downloadPaper_settled outcome s) = body_children s
           \<and> saved_files (downloadPaper_settled outcome s) = saved_files s
           \<and> clicks_elsewhere (downloadPaper_settled outcome s) = clicks_elsewhere s"
  proof
    assume "\<forall>f. outcome \<noteq> Download_ok (Json f)"
    then obtain e where "download_response outcome = Inl e"
      using download_failure_thrown by blast
    then show "body_children (downloadPaper_settled outcome s) = body_children s
           \<and> saved_files (downloadPaper_settled outcome s) = saved_files s
           \<and> clicks_elsewhere (downloadPaper_settled outcome s) = clicks_elsewhere s"
      by (simp add: downloadPaper_settled_def showError_def)
  qed
  from slash any failed show ?thesis by blast
qed

theorem download_saves_file_and_cleans_up_witness:
  "nodes_allocated (run loaded quantum_trace)
   \<and> apiBase (run loaded quantum_trace) = window_origin (run loaded quantum_trace)
   \<and> path_absolute (path paper7_file)
   \<and> (\<forall>f. Download_not_ok 404 (Json (Some ''not found'')) \<noteq> Download_ok (Json f))
   \<and> saved_files (downloadPaper_settled (Download_ok (Json paper7_file)) (run loaded quantum_trace))
       = [(''http://localhost:8000/files/7.pdf'', ''paper7.pdf'')]
   \<and> clicks_elsewhere (downloadPaper_settled (Download_ok (Json paper7_file)) (run loaded quantum_trace))
       = clicks_elsewhere (run loaded quantum_trace)
   \<and> body_children (downloadPaper_settled (Download_ok (Json paper7_file)) (run loaded quantum_trace))
       = body_children (run loaded quantum_trace)
   \<and> body_children (downloadPaper_settled (Download_not_ok 404 (Json (Some ''not found'')))
        (run loaded quantum_trace)) = body_children (run loaded quantum_trace)"
proof -
  have h: "nodes_allocated (run loaded quantum_trace)"
    and o: "apiBase (run loaded quantum_trace) = window_origin (run loaded quantum_trace)"
    by code_simp+
  have p: "path_absolute (path paper7_file)"
    by code_simp
  have n: "\<forall>f. Download_not_ok 404 (Json (Some ''not found'')) \<noteq> Download_ok (Json f)"
    by simp
  have f: "saved_files (run loaded quantum_trace) = []"
    by code_simp
  have r: "(resolved_against_origin (window_origin (run loaded quantum_trace)) (path paper7_file),
      filename paper7_file) = (''http://localhost:8000/files/7.pdf'', ''paper7.pdf'')"
    by code_simp
  from download_saves_file_and_cleans_up
    [OF h o, of paper7_file "Download_not_ok 404 (Json (Some ''not found''))"] h o p n
  show ?thesis unfolding f r by simp
qed

text \<open>Digits and the shape of fixed notation.\<close>

lemma is_digit_digit_char: "d < 10 \<Longrightarrow> is_digit (digit_char d)"
  by (simp add: is_digit_def digit_char_def)

lemma decimal_nat_digits: "list_all is_digit (decimal_nat n)"
proof (induction n rule: decimal_nat.induct)
  case (1 n)
  show ?case
  proof (cases "n < 10")
    case True
    then show ?thesis by (subst decimal_nat.simps) (simp add: is_digit_digit_char)
  next
    case False
    with 1 show ?thesis by (subst decimal_nat.simps) (simp add: is_digit_digit_char)
  qed
qed

lemma decimal_nat_nonempty: "decimal_nat n \<noteq> []"
  by (subst decimal_nat.simps) simp

lemma takeWhile_digits_point:
  "list_all is_digit a \<Longrightarrow> takeWhile is_digit (a @ CHR ''.'' # b) = a"
  by (induction a) (simp_all add: is_digit_def)

lemma fixed_digits_shape:
  "\<exists>whole frac. fixed_digits n = whole @ ''.'' @ frac \<and> whole \<noteq> [] \<and> list_all is_digit whole
      \<and> length frac = 3 \<and> list_all is_digit frac"
proof -
  define m where "m = replicate (4 - length (decimal_nat n)) CHR ''0'' @ decimal_nat n"
  have len: "4 \<le> length m" by (simp add: m_def)
  have z: "is_digit CHR ''0''" by (simp add: is_digit_def)
  have dig: "list_all is_digit m"
    using decimal_nat_digits [of n] z by (auto simp: m_def list_all_iff)
  have eq: "fixed_digits n = take (length m - 3) m @ ''.'' @ drop (length m - 3) m"
    by (simp add: fixed_digits_def Let_def m_def)
  have "take (length m - 3) m \<noteq> []" using len by auto
  moreover have "list_all is_digit (take (length m - 3) m)"
    using dig by (auto simp: list_all_iff dest: in_set_takeD)
  moreover have "length (drop (length m - 3) m) = 3" using len by simp
  moreover have "list_all is_digit (drop (length m - 3) m)"
    using dig by (auto simp: list_all_iff dest: in_set_dropD)
  ultimately show ?thesis using eq by blast
qed

lemma three_decimals_fixed:
  "three_decimals (Fixed_notation (fixed_digits n))"
  "three_decimals (Fixed_notation (''-'' @ fixed_digits n))"
proof -
  obtain whole frac where fd: "fixed_digits n = whole @ ''.'' @ frac" and w: "whole \<noteq> []"
    and dw: "list_all is_digit whole" and lf: "length frac = 3" and df: "list_all is_digit frac"
    using fixed_digits_shape by blast
  from w obtain c cs where wc: "whole = c # cs" by (cases whole) auto
  with dw have "is_digit c" by simp
  then have cm: "c \<noteq> CHR ''-''" by (auto simp: is_digit_def)
  have tw: "takeWhile is_digit (whole @ CHR ''.'' # frac) = whole"
    using dw by (rule takeWhile_digits_point)
  have s1: "strip_sign (fixed_digits n) = whole @ CHR ''.'' # frac"
    using fd wc cm by simp
  have s2: "strip_sign (''-'' @ fixed_digits n) = whole @ CHR ''.'' # frac"
    using fd by simp
  show "three_decimals (Fixed_notation (fixed_digits n))"
    unfolding three_decimals_def number_text.case Let_def s1 tw using w lf df by simp
  show "three_decimals (Fixed_notation (''-'' @ fixed_digits n))"
    unfolding three_decimals_def number_text.case Let_def s2 tw using w lf df by simp
qed

lemma toFixed3_in_range:
  assumes "\<bar>x\<bar> < 10 ^ 21"
  shows "three_decimals (toFixed3 (Finite x))"
  using assms three_decimals_fixed by (simp add: toFixed3_def Let_def)

lemma author_summary_cases:
  "author_summary p =
     (case authors p of
        [] \<Rightarrow> []
      | [a] \<Rightarrow> a
      | [a, b] \<Rightarrow> a @ '', '' @ b
      | a # b # c # others \<Rightarrow> a @ '', '' @ b @ '' et al.'')"
  by (simp add: author_summary_def split: list.splits)

section \<open>Formatting of a card\<close>

lemma markup_free_scan: "markup_free t \<Longrightarrow> markup_scan False t = Some t"
proof (induction t)
  case Nil
  show ?case by simp
next
  case (Cons c t)
  from Cons.prems have "(of_char c :: nat) \<noteq> 0" "(of_char c :: nat) \<noteq> 13"
    "(of_char c :: nat) \<noteq> 38" "(of_char c :: nat) \<noteq> 60"
    by (simp_all add: markup_free_def)
  then have "c \<noteq> CHR 0x00" "c \<noteq> CHR 0x0D" "c \<noteq> CHR ''&''" "c \<noteq> CHR ''<''" by auto
  moreover from Cons have "markup_scan False t = Some t" by (simp add: markup_free_def)
  ultimately show ?case by simp
qed

lemma markup_free_append: "markup_free (a @ b) \<longleftrightarrow> markup_free a \<and> markup_free b"
  by (simp add: markup_free_def)

lemma markup_free_take: "markup_free t \<Longrightarrow> markup_free (take n t)"
  by (auto simp: markup_free_def list_all_iff dest: in_set_takeD)

lemma markup_free_separators:
  "markup_free '', ''" "markup_free '' et al.''" "markup_free ''...''" "markup_free []"
  by (simp_all add: markup_free_def)

lemma author_summary_markup_free:
  "list_all markup_free (take 2 (authors p)) \<Longrightarrow> markup_free (author_summary p)"
  unfolding author_summary_cases
  by (auto simp: markup_free_def split: list.splits)

text \<open>
  Claim C7 says that the rendered title is the truncated title and that the relevance score
  is always formatted to exactly three decimal places. \<^verbatim>\<open>toFixed(3)\<close> of a score of
  \<open>10\<^sup>2\<^sup>1\<close> is not in fixed notation. And a title is written into the markup of the card
  as it is: of the title \<^verbatim>\<open>Bounds for p<q and r>s\<close>, which has 22 characters, the part from
  \<^verbatim>\<open><\<close> to \<^verbatim>\<open>>\<close> is read as a tag, and the text of the card is \<^verbatim>\<open>Bounds for ps\<close>.
\<close>

theorem score_and_title_counterexample:
  "\<not> three_decimals (card_score (createTopPaperCard loaded (paper7\<lparr> relevance_score := Finite (10 ^ 21) \<rparr>)))
   \<and> length markup_title = 22
   \<and> card_title (createTopPaperCard loaded (paper7\<lparr> title := markup_title \<rparr>)) = markup_title
   \<and> character_data (card_title (createTopPaperCard loaded (paper7\<lparr> title := markup_title \<rparr>)))
       = Some ''Bounds for ps''"
proof -
  have "\<not> three_decimals (card_score (createTopPaperCard loaded (paper7\<lparr> relevance_score := Finite (10 ^ 21) \<rparr>)))"
    by (simp add: createTopPaperCard_def toFixed3_def three_decimals_def)
  moreover have "length markup_title = 22
   \<and> card_title (createTopPaperCard loaded (paper7\<lparr> title := markup_title \<rparr>)) = markup_title
   \<and> character_data (card_title (createTopPaperCard loaded (paper7\<lparr> title := markup_title \<rparr>)))
       = Some ''Bounds for ps''"
    by code_simp
  ultimately show ?thesis by blast
qed

text \<open>
  Claim C7, as the script has it. For a title without \<^verbatim>\<open><\<close>, \<^verbatim>\<open>&\<close>, carriage return and
  null character, the text of the title of a card is the title of the paper when it has at
  most 80 characters and its first 80 characters followed by \<^verbatim>\<open>...\<close> otherwise. When the
  first two authors are without these characters, the author text of a card and of a row is
  the first two authors joined by a comma and a space, followed by \<^verbatim>\<open> et al.\<close> exactly
  when there are more than two authors. A score that is finite and of magnitude below
  \<open>10\<^sup>2\<^sup>1\<close> is formatted with exactly three decimal places: the sign, then the digits of
  the score times 1000 rounded to the nearest integer (half up in magnitude) with a point
  before the last three. What is displayed for a title or an author with one of these
  characters is left open.
\<close>

theorem card_formatting:
  "(markup_free (title p) \<longrightarrow>
        character_data (card_title (createTopPaperCard s p))
          = Some (if length (title p) > 80 then take 80 (title p) @ ''...'' else title p))
   \<and> (list_all markup_free (take 2 (authors p)) \<longrightarrow>
        character_data (card_authors (createTopPaperCard s p))
          = Some (case authors p of
                    [] \<Rightarrow> []
                  | [a] \<Rightarrow> a
                  | [a, b] \<Rightarrow> a @ '', '' @ b
                  | a # b # c # others \<Rightarrow> a @ '', '' @ b @ '' et al.'')
      \<and> character_data (row_authors (createPaperRow s p))
          = character_data (card_authors (createTopPaperCard s p)))
   \<and> (relevance_score p = Finite x \<and> \<bar>x\<bar> < 10 ^ 21 \<longrightarrow>
        card_score (createTopPaperCard s p) =
          Fixed_notation ((if x < 0 then ''-'' else []) @ fixed_digits (nat \<lfloor>\<bar>x\<bar> * 1000 + 1 / 2\<rfloor>))
        \<and> three_decimals (card_score (createTopPaperCard s p)))"
proof -
  have score: "relevance_score p = Finite x \<and> \<bar>x\<bar> < 10 ^ 21 \<longrightarrow>
        card_score (createTopPaperCard s p) =
          Fixed_notation ((if x < 0 then ''-'' else []) @ fixed_digits (nat \<lfloor>\<bar>x\<bar> * 1000 + 1 / 2\<rfloor>))
        \<and> three_decimals (card_score (createTopPaperCard s p))"
  proof (intro impI, elim conjE)
    assume r: "relevance_score p = Finite x" and b: "\<bar>x\<bar> < 10 ^ 21"
    have "card_score (createTopPaperCard s p) = toFixed3 (Finite x)"
      by (simp add: createTopPaperCard_def r)
    moreover have "toFixed3 (Finite x) =
       Fixed_notation ((if x < 0 then ''-'' else []) @ fixed_digits (nat \<lfloor>\<bar>x\<bar> * 1000 + 1 / 2\<rfloor>))"
      using b by (simp add: toFixed3_def Let_def)
    ultimately show "card_score (createTopPaperCard s p) =
          Fixed_notation ((if x < 0 then ''-'' else []) @ fixed_digits (nat \<lfloor>\<bar>x\<bar> * 1000 + 1 / 2\<rfloor>))
        \<and> three_decimals (card_score (createTopPaperCard s p))"
      using toFixed3_in_range [OF b] by simp
  qed
  have ttl: "markup_free (title p) \<longrightarrow>
        character_data (card_title (createTopPaperCard s p))
          = Some (if length (title p) > 80 then take 80 (title p) @ ''...'' else title p)"
  proof
    assume f: "markup_free (title p)"
    then have "markup_free (if length (title p) > 80 then take 80 (title p) @ ''...'' else title p)"
      by (simp add: markup_free_append markup_free_take markup_free_separators)
    then show "character_data (card_title (createTopPaperCard s p))
          = Some (if length (title p) > 80 then take 80 (title p) @ ''...'' else title p)"
      unfolding character_data_def createTopPaperCard_def Let_def card.simps
      by (rule markup_free_scan)
  qed
  have aut: "list_all markup_free (take 2 (authors p)) \<longrightarrow>
        character_data (card_authors (createTopPaperCard s p))
          = Some (case authors p of
                    [] \<Rightarrow> []
                  | [a] \<Rightarrow> a
                  | [a, b] \<Rightarrow> a @ '', '' @ b
                  | a # b # c # others \<Rightarrow> a @ '', '' @ b @ '' et al.'')
      \<and> character_data (row_authors (createPaperRow s p))
          = character_data (card_authors (createTopPaperCard s p))"
  proof
    assume "list_all markup_free (take 2 (authors p))"
    then have "markup_free (author_summary p)" by (rule author_summary_markup_free)
    then have "markup_scan False (author_summary p) = Some (author_summary p)"
      by (rule markup_free_scan)
    then show "character_data (card_authors (createTopPaperCard s p))
          = Some (case authors p of
                    [] \<Rightarrow> []
                  | [a] \<Rightarrow> a
                  | [a, b] \<Rightarrow> a @ '', '' @ b
                  | a # b # c # others \<Rightarrow> a @ '', '' @ b @ '' et al.'')
      \<and> character_data (row_authors (createPaperRow s p))
          = character_data (card_authors (createTopPaperCard s p))"
      using author_summary_cases [of p]
      by (simp add: character_data_def createTopPaperCard_def createPaperRow_def)
  qed
  from ttl aut score show ?thesis by blast
qed

theorem card_formatting_witness:
  "markup_free (title paper7)
   \<and> list_all markup_free (take 2 (authors paper7))
   \<and> list_all markup_free (take 2 (authors paper8))
   \<and> relevance_score paper7 = Finite (7 / 8) \<and> \<bar>7 / 8 :: rat\<bar> < 10 ^ 21
   \<and> character_data (card_title (createTopPaperCard loaded paper7)) = Some ''Entanglement''
   \<and> character_data (card_title (createTopPaperCard loaded (paper7\<lparr> title := replicate 81 CHR ''x'' \<rparr>)))
       = Some (replicate 80 CHR ''x'' @ ''...'')
   \<and> character_data (card_authors (createTopPaperCard loaded paper7)) = Some ''A, B et al.''
   \<and> character_data (row_authors (createPaperRow loaded paper7)) = Some ''A, B et al.''
   \<and> character_data (row_authors (createPaperRow loaded paper8)) = Some ''A, B''
   \<and> card_score (createTopPaperCard loaded paper7) = Fixed_notation ''0.875''
   \<and> three_decimals (card_score (createTopPaperCard loaded paper7))"
proof -
  have r: "relevance_score paper7 = Finite (7 / 8) \<and> \<bar>7 / 8 :: rat\<bar> < 10 ^ 21"
    by (simp add: paper7_def)
  have d: "(if (7 / 8 :: rat) < 0 then ''-'' else []) @ fixed_digits (nat \<lfloor>\<bar>7 / 8 :: rat\<bar> * 1000 + 1 / 2\<rfloor>)
      = ''0.875''"
    by code_simp
  have f7: "markup_free (title paper7)"
    and a7: "list_all markup_free (take 2 (authors paper7))"
    and a8: "list_all markup_free (take 2 (authors paper8))"
    by code_simp+
  have f81: "markup_free (title (paper7\<lparr> title := replicate 81 CHR ''x'' \<rparr>))"
    by (simp add: markup_free_def list_all_iff)
  have t7: "(if length (title paper7) > 80 then take 80 (title paper7) @ ''...'' else title paper7)
      = ''Entanglement''"
    by (simp add: paper7_def)
  have t81: "(if length (title (paper7\<lparr> title := replicate 81 CHR ''x'' \<rparr>)) > 80
       then take 80 (title (paper7\<lparr> title := replicate 81 CHR ''x'' \<rparr>)) @ ''...''
       else title (paper7\<lparr> title := replicate 81 CHR ''x'' \<rparr>))
      = replicate 80 CHR ''x'' @ ''...''"
    by simp
  have c7: "(case authors paper7 of [] \<Rightarrow> [] | [a] \<Rightarrow> a | [a, b] \<Rightarrow> a @ '', '' @ b
      | a # b # c # others \<Rightarrow> a @ '', '' @ b @ '' et al.'') = ''A, B et al.''"
    and c8: "(case authors paper8 of [] \<Rightarrow> [] | [a] \<Rightarrow> a | [a, b] \<Rightarrow> a @ '', '' @ b
      | a # b # c # others \<Rightarrow> a @ '', '' @ b @ '' et al.'') = ''A, B''"
    by (simp_all add: paper7_def paper8_def)
  have a81: "authors (paper7\<lparr> title := replicate 81 CHR ''x'' \<rparr>) = authors paper7"
    by simp
  note k7 = card_formatting [of paper7 loaded "7 / 8"]
  note k8 = card_formatting [of paper8 loaded 0]
  note k81 = card_formatting [of "paper7\<lparr> title := replicate 81 CHR ''x'' \<rparr>" loaded 0]
  from k7 r have s7: "card_score (createTopPaperCard loaded paper7) =
      Fixed_notation ((if (7 / 8 :: rat) < 0 then ''-'' else []) @ fixed_digits (nat \<lfloor>\<bar>7 / 8 :: rat\<bar> * 1000 + 1 / 2\<rfloor>))
      \<and> three_decimals (card_score (createTopPaperCard loaded paper7))"
    by blast
  from k7 f7 have u7: "character_data (card_title (createTopPaperCard loaded paper7))
      = Some (if length (title paper7) > 80 then take 80 (title paper7) @ ''...'' else title paper7)"
    by blast
  from k7 a7 have v7: "character_data (card_authors (createTopPaperCard loaded paper7))
      = Some (case authors paper7 of [] \<Rightarrow> [] | [a] \<Rightarrow> a | [a, b] \<Rightarrow> a @ '', '' @ b
          | a # b # c # others \<Rightarrow> a @ '', '' @ b @ '' et al.'')
      \<and> character_data (row_authors (createPaperRow loaded paper7))
          = character_data (card_authors (createTopPaperCard loaded paper7))"
    by blast
  from k8 a8 have v8: "character_data (card_authors (createTopPaperCard loaded paper8))
      = Some (case authors paper8 of [] \<Rightarrow> [] | [a] \<Rightarrow> a | [a, b] \<Rightarrow> a @ '', '' @ b
          | a # b # c # others \<Rightarrow> a @ '', '' @ b @ '' et al.'')
      \<and> character_data (row_authors (createPaperRow loaded paper8))
          = character_data (card_authors (createTopPaperCard loaded paper8))"
    by blast
  from k81 f81 have u81:
    "character_data (card_title (createTopPaperCard loaded (paper7\<lparr> title := replicate 81 CHR ''x'' \<rparr>)))
      = Some (if length (title (paper7\<lparr> title := replicate 81 CHR ''x'' \<rparr>)) > 80
       then take 80 (title (paper7\<lparr> title := replicate 81 CHR ''x'' \<rparr>)) @ ''...''
       else title (paper7\<lparr> title := replicate 81 CHR ''x'' \<rparr>))"
    by blast
  from v7 have x7: "character_data (card_authors (createTopPaperCard loaded paper7)) = Some ''A, B et al.''"
    and w7: "character_data (row_authors (createPaperRow loaded paper7)) = Some ''A, B et al.''"
    unfolding c7 by simp_all
  from v8 have w8: "character_data (row_authors (createPaperRow loaded paper8)) = Some ''A, B''"
    unfolding c8 by simp
  from s7 u7 x7 w7 w8 u81 f7 a7 a8 r show ?thesis
    unfolding d t7 t81 by blast
qed

section \<open>Links and download actions of rendered rows\<close>

text \<open>
  Claim C4 at the keyword context \<^verbatim>\<open>Bell's theorem\<close>. The context is stored and the row
  of paper 7 is rendered with it, but the apostrophe ends the string literal in both handler
  texts of the row: neither reads as the navigation or the call it was written to be, so a
  click on the title does not navigate to the paper and the download action does not carry
  the keyword context. The card of the same paper, whose handler is a closure, has the
  address with the encoded context. With the context \<^verbatim>\<open>quantum\<close> both handlers of
  the row read as the claim says.
\<close>

theorem apostrophe_breaks_row_handlers:
  "currentKeywords (run loaded apostrophe_trace) = apostrophe_keywords
   \<and> map row_download_onclick (papersTable (run loaded apostrophe_trace))
       = [''downloader.downloadPaper(7, '' @ apostrophe @ ''Bell'' @ apostrophe @ ''s theorem''
            @ apostrophe @ '')'']
   \<and> map row_title_onclick (papersTable (run loaded apostrophe_trace))
       = [''window.location.href='' @ apostrophe @ ''/paper/7?keywords=Bell'' @ apostrophe
            @ ''s%20theorem'' @ apostrophe]
   \<and> map click_download (papersTable (run loaded apostrophe_trace)) = [None]
   \<and> map click_title (papersTable (run loaded apostrophe_trace)) = [None]
   \<and> topPapersDiv_children (run loaded apostrophe_trace)
       = [Heading ''<i class=\"fas fa-star\"></i> Top 5 Most Relevant Papers'',
          Container [createTopPaperCard (loaded\<lparr> currentKeywords := apostrophe_keywords \<rparr>) paper7]]
   \<and> card_target (createTopPaperCard (loaded\<lparr> currentKeywords := apostrophe_keywords \<rparr>) paper7)
       = ''/paper/7?keywords=Bell'' @ apostrophe @ ''s%20theorem''
   \<and> map click_download (papersTable (run loaded quantum_trace)) = [Some (7, ''quantum'')]
   \<and> map click_title (papersTable (run loaded quantum_trace)) = [Some ''/paper/7?keywords=quantum'']"
  by code_simp

text \<open>
  Rows and cards are texts fixed when they are rendered: editing the input changes none of
  them. For a keyword context without apostrophe, backslash, line break, double quote and
  ampersand, both handlers of a row read back the address and the arguments they were
  written with; for a keyword context with an apostrophe neither does.
\<close>

lemma rendered_rows_survive_editing:
  "papersTable (step s (Edit_input text)) = papersTable s
   \<and> topPapersDiv_children (step s (Edit_input text)) = topPapersDiv_children s"
  by simp

lemma single_quoted_closing:
  "list_all (\<lambda>c. (of_char c :: nat) \<notin> set [10, 13, 39, 92]) k
     \<Longrightarrow> single_quoted (k @ CHR 0x27 # rest) = Some (k, rest)"
proof (induction k)
  case Nil
  show ?case by simp
next
  case (Cons c k)
  from Cons.prems have "(of_char c :: nat) \<noteq> 39" "(of_char c :: nat) \<noteq> 92"
    "(of_char c :: nat) \<noteq> 10" "(of_char c :: nat) \<noteq> 13" by simp_all
  then have "c \<noteq> CHR 0x27" "c \<noteq> CHR 0x5C" "c \<noteq> CHR 0x0A" "c \<noteq> CHR 0x0D" by auto
  with Cons show ?case by simp
qed

lemma of_char_digit_char: "d < 10 \<Longrightarrow> (of_char (digit_char d) :: nat) = 48 + d"
  by (simp add: digit_char_def)

lemma digits_value_snoc:
  "digits_value (ds @ [c]) = 10 * digits_value ds + (of_char c - 48)"
  by (simp add: digits_value_def)

lemma digits_value_decimal_nat: "digits_value (decimal_nat n) = n"
proof (induction n rule: decimal_nat.induct)
  case (1 n)
  show ?case
  proof (cases "n < 10")
    case True
    then show ?thesis
      by (subst decimal_nat.simps) (simp add: digits_value_def of_char_digit_char)
  next
    case False
    with 1 have "digits_value (decimal_nat (n div 10)) = n div 10" by simp
    with False show ?thesis
      by (subst decimal_nat.simps) (simp add: digits_value_snoc of_char_digit_char)
  qed
qed

lemma takeWhile_digits_then:
  "list_all is_digit ds \<Longrightarrow> \<not> is_digit c \<Longrightarrow> takeWhile is_digit (ds @ c # rest) = ds"
  by (induction ds) simp_all

lemma integer_literal_decimal_int:
  assumes "\<not> is_digit c"
  shows "integer_literal (decimal_int i @ c # rest) = Some (i, c # rest)"
proof (cases "i < 0")
  case True
  have tw: "takeWhile is_digit (decimal_nat (nat (- i)) @ c # rest) = decimal_nat (nat (- i))"
    using decimal_nat_digits assms by (rule takeWhile_digits_then)
  from True show ?thesis
    by (simp add: integer_literal_def decimal_int_def tw decimal_nat_nonempty digits_value_decimal_nat)
next
  case False
  have tw: "takeWhile is_digit (decimal_nat (nat i) @ c # rest) = decimal_nat (nat i)"
    using decimal_nat_digits assms by (rule takeWhile_digits_then)
  obtain d ds where dn: "decimal_nat (nat i) = d # ds"
    using decimal_nat_nonempty [of "nat i"] by (cases "decimal_nat (nat i)") auto
  with decimal_nat_digits [of "nat i"] have "is_digit d" by simp
  then have "d \<noteq> CHR ''-''" by (auto simp: is_digit_def)
  then have nneg: "take 1 (decimal_nat (nat i) @ c # rest) \<noteq> ''-''"
    by (simp add: dn)
  from False show ?thesis
    using nneg tw
    by (simp add: integer_literal_def decimal_int_def decimal_nat_nonempty digits_value_decimal_nat Let_def)
qed

lemma decimal_int_chars: "c \<in> set (decimal_int i) \<Longrightarrow> is_digit c \<or> c = CHR ''-''"
  using decimal_nat_digits [of "nat i"] decimal_nat_digits [of "nat (- i)"]
  by (auto simp: decimal_int_def list_all_iff split: if_splits)

lemma is_digit_code: "is_digit c \<Longrightarrow> (of_char c :: nat) \<notin> set [10, 13, 34, 38, 39, 92]"
  by (auto simp: is_digit_def)

lemma decimal_int_codes:
  "c \<in> set (decimal_int i) \<Longrightarrow> (of_char c :: nat) \<notin> set [10, 13, 34, 38, 39, 92]"
  using decimal_int_chars [of c i] is_digit_code [of c] by auto

lemma hex_upper_code: "d < 16 \<Longrightarrow> 48 \<le> (of_char (hex_upper d) :: nat) \<and> (of_char (hex_upper d) :: nat) \<le> 70"
  by (simp add: hex_upper_def)

lemma percent_byte_codes:
  assumes "b < 256" and "c \<in> set (percent_byte b)"
  shows "(of_char c :: nat) \<notin> set [10, 13, 34, 38, 39, 92]"
proof -
  have "b div 16 < 16" using assms(1) by simp
  from hex_upper_code [OF this] hex_upper_code [of "b mod 16"] assms(2)
  show ?thesis by (auto simp: percent_byte_def)
qed

lemma encode_unit_codes:
  assumes "(of_char u :: nat) \<notin> set [10, 13, 34, 38, 39, 92]" and "c \<in> set (encode_unit u)"
  shows "(of_char c :: nat) \<notin> set [10, 13, 34, 38, 39, 92]"
proof (cases "uri_unreserved u")
  case True
  with assms show ?thesis by (simp add: encode_unit_def)
next
  case False
  have lt: "(of_char u :: nat) < 256" by simp
  show ?thesis
  proof (cases "(of_char u :: nat) < 128")
    case True
    with False assms(2) have "c \<in> set (percent_byte (of_char u))"
      by (simp add: encode_unit_def)
    with lt show ?thesis by (rule percent_byte_codes)
  next
    case hi: False
    with False assms(2) have "c \<in> set (percent_byte (192 + of_char u div 64))
        \<or> c \<in> set (percent_byte (128 + of_char u mod 64))"
      by (simp add: encode_unit_def Let_def)
    moreover have "192 + (of_char u :: nat) div 64 < 256"
      using lt less_mult_imp_div_less [of "of_char u" 4 64] by simp
    moreover have "128 + (of_char u :: nat) mod 64 < 256"
      using mod_less_divisor [of 64 "of_char u"] by simp
    ultimately show ?thesis using percent_byte_codes by blast
  qed
qed

lemma encodeURIComponent_codes:
  assumes "plain_keywords k" and "c \<in> set (encodeURIComponent k)"
  shows "(of_char c :: nat) \<notin> set [10, 13, 34, 38, 39, 92]"
proof -
  from assms(2) obtain u where u: "u \<in> set k" and c: "c \<in> set (encode_unit u)"
    by (auto simp: encodeURIComponent_def)
  from assms(1) u have "(of_char u :: nat) \<notin> set [10, 13, 34, 38, 39, 92]"
    by (simp add: plain_keywords_def list_all_iff)
  then show ?thesis using c by (rule encode_unit_codes)
qed

lemma attribute_value_whole:
  assumes "\<forall>c\<in>set text. (of_char c :: nat) \<noteq> 34 \<and> (of_char c :: nat) \<noteq> 38"
  shows "attribute_value text = Some text"
proof -
  have "CHR ''&'' \<notin> set text" using assms by auto
  moreover have "\<forall>c\<in>set text. c \<noteq> CHR 0x22" using assms by auto
  then have "takeWhile (\<lambda>c. c \<noteq> CHR 0x22) text = text" by simp
  ultimately show ?thesis by (simp add: attribute_value_def)
qed

lemma plain_keywords_download_handler:
  assumes "plain_keywords (currentKeywords s)"
  shows "click_download (createPaperRow s p) = Some (paper_id p, currentKeywords s)"
proof -
  let ?k = "currentKeywords s"
  let ?js = "''downloader.downloadPaper('' @ decimal_int (paper_id p) @ '', '' @ apostrophe @ ?k @ apostrophe @ '')''"
  have k: "\<forall>c\<in>set ?k. (of_char c :: nat) \<notin> set [10, 13, 34, 38, 39, 92]"
    using assms by (simp add: plain_keywords_def list_all_iff)
  have "\<forall>c\<in>set ?js. (of_char c :: nat) \<noteq> 34 \<and> (of_char c :: nat) \<noteq> 38"
    using k decimal_int_codes [of _ "paper_id p"] by (auto simp: apostrophe_def)
  then have av: "attribute_value ?js = Some ?js" by (rule attribute_value_whole)
  have sp: "strip_prefix ''downloader.downloadPaper'' (''downloader.downloadPaper'' @ r) = Some r" for r
    by (rule strip_prefix_append)
  have il: "integer_literal (decimal_int (paper_id p) @ CHR '','' # r) = Some (paper_id p, CHR '','' # r)" for r
    by (rule integer_literal_decimal_int) (simp add: is_digit_def)
  have "list_all (\<lambda>c. (of_char c :: nat) \<notin> set [10, 13, 39, 92]) ?k"
    using k by (simp add: list_all_iff)
  then have sq: "single_quoted (?k @ CHR 0x27 # r) = Some (?k, r)" for r
    by (rule single_quoted_closing)
  have rd: "read_download_call ?js = Some (paper_id p, ?k)"
    using sp [of "CHR ''('' # decimal_int (paper_id p) @ '', '' @ apostrophe @ ?k @ apostrophe @ '')''"]
      il [of "CHR '' '' # apostrophe @ ?k @ apostrophe @ '')''"] sq [of "'')''"]
    by (simp add: read_download_call_def apostrophe_def)
  show ?thesis
    unfolding click_download_def using av rd by (simp add: createPaperRow_def)
qed

lemma plain_keywords_title_handler:
  assumes "plain_keywords (currentKeywords s)"
  shows "click_title (createPaperRow s p)
       = Some (paper_target p (encodeURIComponent (currentKeywords s)))"
proof -
  let ?t = "paper_target p (encodeURIComponent (currentKeywords s))"
  let ?js = "''window.location.href='' @ apostrophe @ ?t @ apostrophe"
  have t: "\<forall>c\<in>set ?t. (of_char c :: nat) \<notin> set [10, 13, 34, 38, 39, 92]"
    using encodeURIComponent_codes [OF assms] decimal_int_codes [of _ "paper_id p"]
    by (auto simp: paper_target_def)
  then have "\<forall>c\<in>set ?js. (of_char c :: nat) \<noteq> 34 \<and> (of_char c :: nat) \<noteq> 38"
    by (auto simp: apostrophe_def)
  then have av: "attribute_value ?js = Some ?js" by (rule attribute_value_whole)
  have "list_all (\<lambda>c. (of_char c :: nat) \<notin> set [10, 13, 39, 92]) ?t"
    using t by (simp add: list_all_iff)
  then have sq: "single_quoted (?t @ CHR 0x27 # []) = Some (?t, [])"
    by (rule single_quoted_closing)
  have rd: "read_navigation ?js = Some ?t"
    using sq by (simp add: read_navigation_def apostrophe_def)
  show ?thesis
    unfolding click_title_def using av rd by (simp add: createPaperRow_def)
qed

lemma single_quoted_no_apostrophe:
  "single_quoted js = Some (v, rest) \<Longrightarrow> CHR 0x27 \<notin> set v"
  by (induction js arbitrary: v rest) (auto split: if_splits option.splits)

lemma apostrophe_never_carried:
  assumes "CHR 0x27 \<in> set (currentKeywords s)"
  shows "click_download (createPaperRow s p) \<noteq> Some (paper_id p, currentKeywords s)"
    and "click_title (createPaperRow s p)
       \<noteq> Some (paper_target p (encodeURIComponent (currentKeywords s)))"
proof -
  show "click_download (createPaperRow s p) \<noteq> Some (paper_id p, currentKeywords s)"
  proof
    assume "click_download (createPaperRow s p) = Some (paper_id p, currentKeywords s)"
    then obtain js r where "single_quoted js = Some (currentKeywords s, r)"
      by (auto simp: click_download_def read_download_call_def split: option.splits if_splits)
    then have "CHR 0x27 \<notin> set (currentKeywords s)" by (rule single_quoted_no_apostrophe)
    with assms show False by simp
  qed
  have "encode_unit (CHR 0x27) = [CHR 0x27]"
    by (simp add: encode_unit_def uri_unreserved_def)
  with assms have in_t: "CHR 0x27 \<in> set (paper_target p (encodeURIComponent (currentKeywords s)))"
    by (force simp: paper_target_def encodeURIComponent_def)
  show "click_title (createPaperRow s p)
       \<noteq> Some (paper_target p (encodeURIComponent (currentKeywords s)))"
  proof
    assume "click_title (createPaperRow s p)
       = Some (paper_target p (encodeURIComponent (currentKeywords s)))"
    then obtain js r where
      "single_quoted js = Some (paper_target p (encodeURIComponent (currentKeywords s)), r)"
      by (auto simp: click_title_def read_navigation_def split: option.splits if_splits)
    then have "CHR 0x27 \<notin> set (paper_target p (encodeURIComponent (currentKeywords s)))"
      by (rule single_quoted_no_apostrophe)
    with in_t show False by simp
  qed
qed

end
